theory Spec2Isabelle
  imports Complex_Main "HOL-Library.Log_Nat" "HOL-Library.Word"
begin

section \<open>Python values used by DCS\_reset\_mouse.py\<close>

subsection \<open>Strings\<close>

text \<open>
  A Python \<open>str\<close> is modelled as a \<open>string\<close> whose characters are the code points
  below 256. \<open>isspace\<close> is \<open>str.isspace\<close> on that range: TAB, LF, VT, FF, CR, the
  separators 0x1C to 0x1F, space, NEL (0x85) and the no-break space (0xA0).
\<close>

definition isspace :: "char \<Rightarrow> bool" where
  "isspace c =
     (let n = (of_char c :: nat)
      in (9 \<le> n \<and> n \<le> 13) \<or> (28 \<le> n \<and> n \<le> 32) \<or> n = 133 \<or> n = 160)"

definition strip :: "string \<Rightarrow> string" where
  "strip s = rev (dropWhile isspace (rev (dropWhile isspace s)))"

text \<open>\<open>s.split(sep)\<close> for a separator of one character.\<close>

fun str_split :: "char \<Rightarrow> string \<Rightarrow> string list" where
  "str_split sep [] = [[]]"
| "str_split sep (c # cs) =
     (if c = sep then [] # str_split sep cs
      else (case str_split sep cs of
              [] \<Rightarrow> [[c]]
            | r # rs \<Rightarrow> (c # r) # rs))"

definition is_digit :: "char \<Rightarrow> bool" where
  "is_digit c = (48 \<le> (of_char c :: nat) \<and> (of_char c :: nat) \<le> 57)"

definition digit_val :: "char \<Rightarrow> nat" where
  "digit_val c = of_char c - 48"

text \<open>\<open>str(i)\<close> of an integer, as the f-strings of the program format it.\<close>

fun str_nat :: "nat \<Rightarrow> string" where
  "str_nat n =
     (if n < 10 then [char_of (48 + n)]
      else str_nat (n div 10) @ [char_of (48 + n mod 10)])"

declare str_nat.simps [simp del]

definition str_int :: "int \<Rightarrow> string" where
  "str_int i = (if i < 0 then CHR ''-'' # str_nat (nat (- i)) else str_nat (nat i))"

subsection \<open>Exceptions\<close>

text \<open>
  An exception is its class and the argument it was raised with: the key of a
  \<open>KeyError\<close>, the message of an explicit \<open>raise\<close>. An exception raised by a built-in
  carries the text or a short description of what was rejected; the wording of the
  interpreter's own messages is not modelled.
\<close>

datatype exc_class = KeyError | ValueError | IndexError | OverflowError | PygameError

datatype py_exception = Exc exc_class string

fun class_of :: "py_exception \<Rightarrow> exc_class" where
  "class_of (Exc c a) = c"

text \<open>
  How a call ends other than by returning: \<open>sys.exit(n)\<close>, or an exception that no
  handler of the program catches (the interpreter then ends the process with status 1).
\<close>

datatype outcome = SysExit int | Uncaught py_exception

fun exit_code :: "outcome \<Rightarrow> int" where
  "exit_code (SysExit n) = n"
| "exit_code (Uncaught e) = 1"

text \<open>\<open>xs[i]\<close> on a list: a negative index counts from the end.\<close>

definition py_getitem :: "'a list \<Rightarrow> int \<Rightarrow> py_exception + 'a" where
  "py_getitem xs i =
     (if 0 \<le> i \<and> i < int (length xs) then Inr (xs ! nat i)
      else if - int (length xs) \<le> i \<and> i < 0 then Inr (xs ! nat (int (length xs) + i))
      else Inl (Exc IndexError ''list index out of range''))"

subsection \<open>Floats\<close>

text \<open>
  A Python \<open>float\<close> is an IEEE 754 binary64 value. The finite ones are the rationals
  \<open>m * 2 ^ q\<close> with \<open>\<bar>m\<bar> < 2 ^ 53\<close> and \<open>- 1074 \<le> q\<close> below \<open>2 ^ 1024\<close>; the
  negative zero is identified with zero, from which no operation of the program
  tells it apart. \<open>to_double\<close> rounds a rational to the nearest such value, ties to
  the even significand, as the arithmetic of the hardware and the conversion of a
  decimal literal do.
\<close>

datatype pyfloat = Finite rat | PosInf | NegInf | NaN

definition pow2 :: "int \<Rightarrow> rat" where
  "pow2 n = (if 0 \<le> n then 2 ^ nat n else 1 / 2 ^ nat (- n))"

definition round_half_even :: "rat \<Rightarrow> int" where
  "round_half_even x =
     (let f = \<lfloor>x\<rfloor>; d = x - of_int f
      in if d < 1 / 2 then f
         else if 1 / 2 < d then f + 1
         else if even f then f else f + 1)"

text \<open>The binary exponent \<open>\<lfloor>log\<^sub>2 x\<rfloor>\<close> of a positive rational.\<close>

definition ilog2 :: "rat \<Rightarrow> int" where
  "ilog2 x = (if 1 \<le> x then bitlen \<lfloor>x\<rfloor> - 1 else - bitlen (\<lceil>1 / x\<rceil> - 1))"

definition to_double :: "rat \<Rightarrow> pyfloat" where
  "to_double x =
     (if x = 0 then Finite 0
      else let q = max (ilog2 \<bar>x\<bar> - 52) (- 1074);
               r = of_int (round_half_even (x / pow2 q)) * pow2 q
           in if pow2 1024 \<le> \<bar>r\<bar> then (if 0 < x then PosInf else NegInf)
              else Finite r)"

text \<open>\<open>a <= b\<close> on floats: every comparison with a NaN is false.\<close>

fun float_le :: "pyfloat \<Rightarrow> pyfloat \<Rightarrow> bool" where
  "float_le NaN b = False"
| "float_le a NaN = False"
| "float_le NegInf b = True"
| "float_le a PosInf = True"
| "float_le PosInf b = False"
| "float_le a NegInf = False"
| "float_le (Finite a) (Finite b) = (a \<le> b)"

text \<open>The chained comparison \<open>0.0 <= x <= 1.0\<close>.\<close>

definition in_unit :: "pyfloat \<Rightarrow> bool" where
  "in_unit x = (float_le (Finite 0) x \<and> float_le x (Finite 1))"

text \<open>
  \<open>a * b\<close> on floats: the exact product of two finite values, rounded; a NaN when
  an operand is a NaN or the product is of an infinity and a zero; otherwise the
  infinity of the product's sign.
\<close>

fun float_sign :: "pyfloat \<Rightarrow> int" where
  "float_sign (Finite a) = (if a = 0 then 0 else if 0 < a then 1 else - 1)"
| "float_sign PosInf = 1"
| "float_sign NegInf = - 1"
| "float_sign NaN = 0"

fun float_mul :: "pyfloat \<Rightarrow> pyfloat \<Rightarrow> pyfloat" where
  "float_mul (Finite a) (Finite b) = to_double (a * b)"
| "float_mul a b =
     (if a = NaN \<or> b = NaN \<or> float_sign a = 0 \<or> float_sign b = 0 then NaN
      else if float_sign a = float_sign b then PosInf else NegInf)"

text \<open>
  The conversion of an \<open>int\<close> operand to \<open>float\<close>, which raises \<open>OverflowError\<close> when
  the integer is too large, and \<open>n * x\<close> for an \<open>int\<close> and a \<open>float\<close>.
\<close>

definition float_of_int :: "int \<Rightarrow> py_exception + pyfloat" where
  "float_of_int n =
     (case to_double (of_int n) of
        Finite r \<Rightarrow> Inr (Finite r)
      | _ \<Rightarrow> Inl (Exc OverflowError ''int too large to convert to float''))"

definition int_mul_float :: "int \<Rightarrow> pyfloat \<Rightarrow> py_exception + pyfloat" where
  "int_mul_float n x =
     (case float_of_int n of
        Inl e \<Rightarrow> Inl e
      | Inr a \<Rightarrow> Inr (float_mul a x))"

text \<open>\<open>int(x)\<close> of a float: truncation towards zero.\<close>

definition trunc :: "rat \<Rightarrow> int" where
  "trunc x = (if 0 \<le> x then \<lfloor>x\<rfloor> else \<lceil>x\<rceil>)"

fun int_of_float :: "pyfloat \<Rightarrow> py_exception + int" where
  "int_of_float (Finite x) = Inr (trunc x)"
| "int_of_float NaN = Inl (Exc ValueError ''cannot convert float NaN to integer'')"
| "int_of_float _ = Inl (Exc OverflowError ''cannot convert float infinity to integer'')"

text \<open>\<open>round(x)\<close> of a finite float, to the nearest integer, ties to even.\<close>

definition py_round :: "rat \<Rightarrow> int" where
  "py_round x = round_half_even x"

subsection \<open>The built-ins \<open>int\<close> and \<open>float\<close> on strings\<close>

text \<open>
  \<open>int(s)\<close> in base 10: surrounding whitespace is dropped, then an optional sign and
  digits follow, where one underscore may stand between two digits. Anything else
  raises \<open>ValueError\<close>. (The limit that recent interpreters put on the number of
  digits is not modelled.)
\<close>

fun int_digits :: "string \<Rightarrow> string option" where
  "int_digits [] = None"
| "int_digits [c] = (if is_digit c then Some [c] else None)"
| "int_digits (c # d # cs) =
     (if \<not> is_digit c then None
      else if d = CHR ''_''
        then (case int_digits cs of None \<Rightarrow> None | Some ds \<Rightarrow> Some (c # ds))
        else (case int_digits (d # cs) of None \<Rightarrow> None | Some ds \<Rightarrow> Some (c # ds)))"

definition digits_value :: "string \<Rightarrow> nat" where
  "digits_value ds = foldl (\<lambda>n c. 10 * n + digit_val c) 0 ds"

definition split_sign :: "string \<Rightarrow> bool \<times> string" where
  "split_sign t =
     (case t of
        [] \<Rightarrow> (False, t)
      | c # cs \<Rightarrow> if c = CHR ''-'' then (True, cs)
                 else if c = CHR ''+'' then (False, cs)
                 else (False, t))"

definition py_int :: "string \<Rightarrow> py_exception + int" where
  "py_int s =
     (case split_sign (strip s) of
        (neg, body) \<Rightarrow>
          (case int_digits body of
             None \<Rightarrow> Inl (Exc ValueError s)
           | Some ds \<Rightarrow> Inr (if neg then - int (digits_value ds) else int (digits_value ds))))"

text \<open>
  \<open>float(s)\<close>: surrounding whitespace is dropped; every underscore must stand between
  two digits and is then removed; what is left is an optional sign followed by
  \<open>inf\<close>, \<open>infinity\<close> or \<open>nan\<close> in any case, or by a decimal number: digits with an
  optional point, at least one digit in all, and an optional exponent \<open>e\<close> with its
  own sign and at least one digit. The value is the decimal rounded to the nearest
  double; too large a number is an infinity, not an error.
\<close>

fun underscores_ok :: "char option \<Rightarrow> string \<Rightarrow> bool" where
  "underscores_ok prev [] = (prev \<noteq> Some (CHR ''_''))"
| "underscores_ok prev (c # cs) =
     (if c = CHR ''_''
      then (case prev of None \<Rightarrow> False | Some p \<Rightarrow> is_digit p) \<and> underscores_ok (Some c) cs
      else (prev = Some (CHR ''_'') \<longrightarrow> is_digit c) \<and> underscores_ok (Some c) cs)"

definition lower :: "char \<Rightarrow> char" where
  "lower c = (if 65 \<le> (of_char c :: nat) \<and> (of_char c :: nat) \<le> 90
              then char_of ((of_char c :: nat) + 32) else c)"

definition pow10 :: "int \<Rightarrow> rat" where
  "pow10 n = (if 0 \<le> n then 10 ^ nat n else 1 / 10 ^ nat (- n))"

definition parse_exponent :: "string \<Rightarrow> int option" where
  "parse_exponent t =
     (case t of
        [] \<Rightarrow> Some 0
      | c # cs \<Rightarrow>
          if c = CHR ''e'' \<or> c = CHR ''E''
          then (case split_sign cs of
                  (neg, ds) \<Rightarrow>
                    if ds \<noteq> [] \<and> list_all is_digit ds
                    then Some (if neg then - int (digits_value ds) else int (digits_value ds))
                    else None)
          else None)"

definition parse_decimal :: "string \<Rightarrow> rat option" where
  "parse_decimal t =
     (let ip = takeWhile is_digit t; r1 = dropWhile is_digit t;
          fp = (case r1 of
                  [] \<Rightarrow> []
                | c # cs \<Rightarrow> if c = CHR ''.'' then takeWhile is_digit cs else []);
          r2 = (case r1 of
                  [] \<Rightarrow> []
                | c # cs \<Rightarrow> if c = CHR ''.'' then dropWhile is_digit cs else r1)
      in if ip = [] \<and> fp = [] then None
         else (case parse_exponent r2 of
                 None \<Rightarrow> None
               | Some e \<Rightarrow>
                   Some (of_nat (digits_value (ip @ fp)) * pow10 (e - int (length fp)))))"

definition py_float :: "string \<Rightarrow> py_exception + pyfloat" where
  "py_float s =
     (let t = strip s
      in if \<not> underscores_ok None t then Inl (Exc ValueError s)
         else (case split_sign (filter (\<lambda>c. c \<noteq> CHR ''_'') t) of
                 (neg, body) \<Rightarrow>
                   if map lower body = ''inf'' \<or> map lower body = ''infinity''
                   then Inr (if neg then NegInf else PosInf)
                   else if map lower body = ''nan'' then Inr NaN
                   else (case parse_decimal body of
                           None \<Rightarrow> Inl (Exc ValueError s)
                         | Some r \<Rightarrow> Inr (to_double (if neg then - r else r)))))"

section \<open>The world the program acts on\<close>

text \<open>
  What the program does to its surroundings is recorded in order: the records handed
  to the \<open>logging\<close> module (the log file keeps those of level INFO and above, which are
  all of them), the cursor positions set, the pauses, and the calls into pygame.
  The text of a record is a string, or the prefix of an f-string followed by the
  exception it formats (\<open>f"...{e}"\<close>).
\<close>

datatype level = INFO | ERROR

datatype log_msg = Msg string | MsgExc string py_exception

datatype effect =
    Logged level log_msg
  | CursorSet int int
  | Slept nat
  | PygameInit
  | JoystickModuleInit
  | JoystickOpened int
  | EventsPumped
  | PygameQuit

record state =
  cursor :: "int \<times> int"
  trace :: "effect list"

definition emit :: "effect \<Rightarrow> state \<Rightarrow> state" where
  "emit e st = st\<lparr>trace := trace st @ [e]\<rparr>"

definition logging_log :: "level \<Rightarrow> log_msg \<Rightarrow> state \<Rightarrow> state" where
  "logging_log lvl m st = emit (Logged lvl m) st"

text \<open>
  \<open>LogRedirect.write\<close>, which replaces \<open>sys.stdout\<close> (at INFO) and \<open>sys.stderr\<close>
  (at ERROR): a message that is not blank is logged stripped. \<open>print(s)\<close> writes \<open>s\<close>
  and then the line end, each with its own call of \<open>write\<close>.
\<close>

definition LogRedirect_write :: "level \<Rightarrow> string \<Rightarrow> state \<Rightarrow> state" where
  "LogRedirect_write lvl message st =
     (if strip message \<noteq> [] then logging_log lvl (Msg (strip message)) st else st)"

definition py_print :: "string \<Rightarrow> state \<Rightarrow> state" where
  "py_print s st = LogRedirect_write INFO [CHR 0x0A] (LogRedirect_write INFO s st)"

text \<open>\<open>time.sleep\<close>, the pause in milliseconds.\<close>

definition time_sleep :: "nat \<Rightarrow> state \<Rightarrow> state" where
  "time_sleep ms st = emit (Slept ms) st"

text \<open>
  \<open>win32api.SetCursorPos((x, y))\<close>: the coordinates are converted to C \<open>int\<close>, which
  raises \<open>OverflowError\<close> outside 32 bits; then the cursor is there.
\<close>

definition in_c_int :: "int \<Rightarrow> bool" where
  "in_c_int x = (- (2 ^ 31) \<le> x \<and> x < 2 ^ 31)"

definition SetCursorPos :: "int \<Rightarrow> int \<Rightarrow> state \<Rightarrow> (py_exception + unit) \<times> state" where
  "SetCursorPos x y st =
     (if in_c_int x \<and> in_c_int y
      then (Inr (), emit (CursorSet x y) (st\<lparr>cursor := (x, y)\<rparr>))
      else (Inl (Exc OverflowError ''Python int too large to convert to C long''), st))"

section \<open>center\_mouse\<close>

text \<open>
  \<open>GetSystemMetrics\<close> is called through \<open>ctypes\<close>, which returns a C \<open>int\<close>: the width
  and the height of the primary screen are 32-bit words read as signed.
\<close>

record screen =
  SM_CXSCREEN :: "32 word"
  SM_CYSCREEN :: "32 word"

definition second_pos :: "int \<Rightarrow> pyfloat \<Rightarrow> py_exception + int" where
  "second_pos extent fraction =
     (case int_mul_float extent fraction of
        Inl e \<Rightarrow> Inl e
      | Inr p \<Rightarrow> int_of_float p)"

definition center_mouse ::
  "screen \<Rightarrow> pyfloat \<Rightarrow> pyfloat \<Rightarrow> state \<Rightarrow> (py_exception + unit) \<times> state" where
  "center_mouse scr center_x_frac center_y_frac st =
     (let screen_width = sint (SM_CXSCREEN scr);
          screen_height = sint (SM_CYSCREEN scr);
          first_x = 0; first_y = 0
      in case second_pos screen_width center_x_frac of
           Inl e \<Rightarrow> (Inl e, st)
         | Inr second_x \<Rightarrow>
        (case second_pos screen_height center_y_frac of
           Inl e \<Rightarrow> (Inl e, st)
         | Inr second_y \<Rightarrow>
        (case SetCursorPos first_x first_y st of
           (Inl e, st1) \<Rightarrow> (Inl e, st1)
         | (Inr u, st1) \<Rightarrow>
        (let st2 = py_print (''Mouse moved to initial position: ('' @ str_int first_x
                       @ '', '' @ str_int first_y @ '')'') st1;
             st3 = time_sleep 50 st2
         in case SetCursorPos second_x second_y st3 of
              (Inl e, st4) \<Rightarrow> (Inl e, st4)
            | (Inr u, st4) \<Rightarrow>
                (Inr (), py_print (''Mouse moved to second position: ('' @ str_int second_x
                            @ '', '' @ str_int second_y @ '')'') st4)))))"

text \<open>
  The target as the specification words it, \<open>round(width * fracX)\<close>: the same product,
  rounded to the nearest integer instead of truncated. It is here to be compared
  with \<open>second_pos\<close>.
\<close>

fun round_of_float :: "pyfloat \<Rightarrow> py_exception + int" where
  "round_of_float (Finite x) = Inr (py_round x)"
| "round_of_float NaN = Inl (Exc ValueError ''cannot convert float NaN to integer'')"
| "round_of_float _ = Inl (Exc OverflowError ''cannot convert float infinity to integer'')"

definition spec_target :: "int \<Rightarrow> pyfloat \<Rightarrow> py_exception + int" where
  "spec_target extent fraction =
     (case int_mul_float extent fraction of
        Inl e \<Rightarrow> Inl e
      | Inr p \<Rightarrow> round_of_float p)"

section \<open>The surroundings of a run\<close>

text \<open>
  What a run finds around it. \<open>configparser\<close> is taken as it answers the program:
  whether \<open>config.read\<close> could read the file, and the text that
  \<open>config[section][key]\<close> returns (the parser keeps an inline \<open>;\<close> comment as part
  of the value). Errors of the parser itself, on a malformed file or a malformed \<open>%\<close>
  interpolation, are outside the model. pygame is taken the same way: an error raised
  by its initialisation if there is one, the name and number of buttons of each
  joystick, and the events that each poll of the queue returns. Failures of the
  operating system's cursor call are outside the model as well.
\<close>

type_synonym config = "string \<rightharpoonup> (string \<rightharpoonup> string)"

datatype pygame_event = JOYBUTTONUP (joy: int) (button_of: int) | QUIT | OTHER nat

record env =
  config_found :: bool
  config_values :: config
  pygame_fault :: "string option"
  joysticks :: "(string \<times> int) list"
  display :: screen
  events :: "nat \<Rightarrow> pygame_event list"

section \<open>load\_config\<close>

record settings =
  device :: int
  button :: int
  center_x :: pyfloat
  center_y :: pyfloat

text \<open>One statement after another inside a \<open>try\<close>: the first exception ends the block.\<close>

fun try_bind :: "'e + 'a \<Rightarrow> ('a \<Rightarrow> 'e + 'b) \<Rightarrow> 'e + 'b" where
  "try_bind (Inr a) f = f a"
| "try_bind (Inl e) f = Inl e"

text \<open>\<open>config[section][key]\<close>\<close>

definition config_getitem :: "config \<Rightarrow> string \<Rightarrow> string \<Rightarrow> py_exception + string" where
  "config_getitem cfg section key =
     (case cfg section of
        None \<Rightarrow> Inl (Exc KeyError section)
      | Some options \<Rightarrow>
          (case options key of
             None \<Rightarrow> Inl (Exc KeyError key)
           | Some v \<Rightarrow> Inr v))"

text \<open>\<open>config[section][key].split(';')[0].strip()\<close>\<close>

definition setting_text :: "config \<Rightarrow> string \<Rightarrow> string \<Rightarrow> py_exception + string" where
  "setting_text cfg section key =
     try_bind (config_getitem cfg section key) (\<lambda>v.
     try_bind (py_getitem (str_split (CHR '';'') v) 0) (\<lambda>t.
     Inr (strip t)))"

text \<open>The body of the \<open>try\<close> block: the four settings in the order of the dictionary
  display, then the check of the range.\<close>

definition read_settings :: "config \<Rightarrow> py_exception + settings" where
  "read_settings cfg =
     try_bind (try_bind (setting_text cfg ''Joystick'' ''device'') py_int) (\<lambda>d.
     try_bind (try_bind (setting_text cfg ''Joystick'' ''button'') py_int) (\<lambda>b.
     try_bind (try_bind (setting_text cfg ''Mouse'' ''center_x'') py_float) (\<lambda>x.
     try_bind (try_bind (setting_text cfg ''Mouse'' ''center_y'') py_float) (\<lambda>y.
     if \<not> (in_unit x \<and> in_unit y)
     then Inl (Exc ValueError ''center_x and center_y must be between 0.0 and 1.0.'')
     else Inr \<lparr>device = d, button = b, center_x = x, center_y = y\<rparr>))))"

definition load_config :: "env \<Rightarrow> state \<Rightarrow> (outcome + settings) \<times> state" where
  "load_config ev st =
     (if \<not> config_found ev
      then (Inl (SysExit 1),
            logging_log ERROR (Msg ''Configuration file 'config.ini' not found or invalid.'') st)
      else (case read_settings (config_values ev) of
              Inr s \<Rightarrow> (Inr s, st)
            | Inl e \<Rightarrow>
                if class_of e = KeyError
                then (Inl (SysExit 1),
                      logging_log ERROR (MsgExc ''Missing configuration key: '' e) st)
                else if class_of e = ValueError
                then (Inl (SysExit 1),
                      logging_log ERROR (MsgExc ''Invalid value in configuration: '' e) st)
                else (Inl (Uncaught e), st)))"

section \<open>log\_available\_devices\<close>

record device_info =
  index :: int
  name :: string
  buttons :: int

text \<open>The function returns \<open>False\<close> or the list of the devices; \<open>falsy\<close> is the
  truth value that \<open>not devices_info\<close> tests.\<close>

datatype devices_result = PyFalse | DeviceList "device_info list"

fun falsy :: "devices_result \<Rightarrow> bool" where
  "falsy PyFalse = True"
| "falsy (DeviceList ds) = (ds = [])"

fun devices_of :: "devices_result \<Rightarrow> device_info list" where
  "devices_of PyFalse = []"
| "devices_of (DeviceList ds) = ds"

text \<open>The \<open>for i in range(joystick_count)\<close> loop, from index \<open>i\<close> on.\<close>

fun enumerate_joysticks ::
  "int \<Rightarrow> (string \<times> int) list \<Rightarrow> device_info list \<Rightarrow> state \<Rightarrow> device_info list \<times> state" where
  "enumerate_joysticks i [] devices_info st = (devices_info, st)"
| "enumerate_joysticks i ((joystick_name, button_count) # rest) devices_info st =
     enumerate_joysticks (i + 1) rest
       (devices_info @ [\<lparr>index = i, name = joystick_name, buttons = button_count\<rparr>])
       (logging_log INFO
          (Msg (''Joystick '' @ str_int i @ '': '' @ joystick_name @ '' with ''
                @ str_int button_count @ '' button(s)''))
          (emit (JoystickOpened i) st))"

definition log_available_devices :: "env \<Rightarrow> state \<Rightarrow> (outcome + devices_result) \<times> state" where
  "log_available_devices ev st =
     (case pygame_fault ev of
        Some m \<Rightarrow>
          (Inl (SysExit 1),
           logging_log ERROR
             (MsgExc ''Error initializing or logging joysticks: '' (Exc PygameError m)) st)
      | None \<Rightarrow>
          (let st1 = emit JoystickModuleInit (emit PygameInit st);
               joystick_count = int (length (joysticks ev))
           in if joystick_count < 1
              then (Inr PyFalse, logging_log INFO (Msg ''No joysticks detected.'') st1)
              else (case enumerate_joysticks 0 (joysticks ev) []
                           (logging_log INFO
                              (Msg (str_int joystick_count @ '' joystick(s) detected:'')) st1) of
                      (devices_info, st2) \<Rightarrow> (Inr (DeviceList devices_info), st2))))"

section \<open>validate\_config\<close>

definition validate_config ::
  "settings \<Rightarrow> device_info list \<Rightarrow> state \<Rightarrow> (outcome + unit) \<times> state" where
  "validate_config s devices_info st =
     (let device_index = device s; button_index = button s
      in if device_index \<ge> int (length devices_info)
         then (Inl (SysExit 1),
               logging_log ERROR
                 (Msg (''Invalid joystick index in config: '' @ str_int device_index
                       @ ''. Only '' @ str_int (int (length devices_info))
                       @ '' device(s) detected.'')) st)
         else (case py_getitem devices_info device_index of
                 Inl e \<Rightarrow> (Inl (Uncaught e), st)
               | Inr joystick_info \<Rightarrow>
                   if button_index \<ge> buttons joystick_info
                   then (Inl (SysExit 1),
                         logging_log ERROR
                           (Msg (''Invalid button index in config for device ''
                                 @ str_int device_index @ '': '' @ str_int button_index
                                 @ ''. This joystick has '' @ str_int (buttons joystick_info)
                                 @ '' buttons.'')) st)
                   else (Inr (), st)))"

section \<open>main\<close>

text \<open>The body of the \<open>for event in pygame.event.get()\<close> loop: the two \<open>if\<close>
  statements, one after the other.\<close>

definition on_button_up ::
  "settings \<Rightarrow> screen \<Rightarrow> pygame_event \<Rightarrow> state \<Rightarrow> (py_exception + unit) \<times> state" where
  "on_button_up s scr event st =
     (case event of
        JOYBUTTONUP j b \<Rightarrow>
          if b = button s
          then (let log_message = ''Button '' @ str_int b @ '' released!''
                in center_mouse scr (center_x s) (center_y s)
                     (py_print log_message (logging_log INFO (Msg log_message) st)))
          else (Inr (), st)
      | _ \<Rightarrow> (Inr (), st))"

definition on_quit :: "pygame_event \<Rightarrow> state \<Rightarrow> state" where
  "on_quit event st =
     (case event of
        QUIT \<Rightarrow>
          (let log_message = ''Quit event received.''
           in py_print log_message (logging_log INFO (Msg log_message) st))
      | _ \<Rightarrow> st)"

definition handle_event ::
  "settings \<Rightarrow> screen \<Rightarrow> pygame_event \<Rightarrow> state \<Rightarrow> (py_exception + unit) \<times> state" where
  "handle_event s scr event st =
     (case on_button_up s scr event st of
        (Inl e, st1) \<Rightarrow> (Inl e, st1)
      | (Inr u, st1) \<Rightarrow> (Inr (), on_quit event st1))"

fun process_events ::
  "settings \<Rightarrow> screen \<Rightarrow> pygame_event list \<Rightarrow> state \<Rightarrow> (py_exception + unit) \<times> state" where
  "process_events s scr [] st = (Inr (), st)"
| "process_events s scr (event # rest) st =
     (case handle_event s scr event st of
        (Inl e, st1) \<Rightarrow> (Inl e, st1)
      | (Inr u, st1) \<Rightarrow> process_events s scr rest st1)"

text \<open>
  \<open>while True\<close>, from its \<open>i\<close>-th pass on: pump, handle the pending events, sleep
  100 ms. The loop has no exit of its own: it ends only when an exception leaves it,
  and the result is that exception with the state reached; a run that goes on for
  ever has no result.
\<close>

partial_function (option) event_loop ::
  "settings \<Rightarrow> env \<Rightarrow> nat \<Rightarrow> state \<Rightarrow> (py_exception \<times> state) option" where
  "event_loop s ev i st =
     (case process_events s (display ev) (events ev i) (emit EventsPumped st) of
        (Inl e, st1) \<Rightarrow> Some (e, st1)
      | (Inr u, st1) \<Rightarrow> event_loop s ev (Suc i) (time_sleep 100 st1))"

text \<open>
  The first \<open>n\<close> passes of the same loop, from its \<open>i\<close>-th pass on, which show what a
  run that never ends does on its way: \<open>Inr ()\<close> with the state reached when the loop
  is still running after them, the exception and the state where it was raised when
  one of them raised.
\<close>

fun event_loop_passes ::
  "nat \<Rightarrow> settings \<Rightarrow> env \<Rightarrow> nat \<Rightarrow> state \<Rightarrow> (py_exception + unit) \<times> state" where
  "event_loop_passes 0 s ev i st = (Inr (), st)"
| "event_loop_passes (Suc n) s ev i st =
     (case process_events s (display ev) (events ev i) (emit EventsPumped st) of
        (Inl e, st1) \<Rightarrow> (Inl e, st1)
      | (Inr u, st1) \<Rightarrow> event_loop_passes n s ev (Suc i) (time_sleep 100 st1))"

text \<open>\<open>pygame.joystick.Joystick(i)\<close> followed by \<open>init\<close>: an error of pygame unless
  \<open>i\<close> numbers an attached joystick; otherwise its name.\<close>

definition open_joystick :: "env \<Rightarrow> int \<Rightarrow> state \<Rightarrow> (py_exception + string) \<times> state" where
  "open_joystick ev i st =
     (if 0 \<le> i \<and> i < int (length (joysticks ev))
      then (Inr (fst (joysticks ev ! nat i)), emit (JoystickOpened i) st)
      else (Inl (Exc PygameError ''Invalid joystick device number''), st))"

text \<open>The \<open>try\<close> block of \<open>main\<close>: the exception that leaves it with the state
  reached, or no result when the loop runs for ever.\<close>

definition main_try :: "settings \<Rightarrow> env \<Rightarrow> state \<Rightarrow> (py_exception \<times> state) option" where
  "main_try s ev st =
     (case open_joystick ev (device s) st of
        (Inl e, st1) \<Rightarrow> Some (e, st1)
      | (Inr joystick_name, st1) \<Rightarrow>
          event_loop s ev 0
            (logging_log INFO (Msg ''Listening to Events now:'')
            (logging_log INFO (Msg (''Monitoring button index: '' @ str_int (button s)))
            (logging_log INFO (Msg (''Joystick initialized: '' @ joystick_name)) st1))))"

text \<open>
  \<open>main\<close>: how the process ends and the state it leaves, or no result when it runs
  for ever. \<open>Inr ()\<close> is the return of \<open>main\<close>, after which the process ends with
  status 0.
\<close>

definition main :: "env \<Rightarrow> state \<Rightarrow> ((outcome + unit) \<times> state) option" where
  "main ev st =
     (case load_config ev st of
        (Inl out, st1) \<Rightarrow> Some (Inl out, st1)
      | (Inr s, st1) \<Rightarrow>
     (case log_available_devices ev st1 of
        (Inl out, st2) \<Rightarrow> Some (Inl out, st2)
      | (Inr devices_info, st2) \<Rightarrow>
     if falsy devices_info
     then Some (Inl (SysExit 1), logging_log INFO (Msg ''Exiting: No joysticks available.'') st2)
     else
     (case validate_config s (devices_of devices_info) st2 of
        (Inl out, st3) \<Rightarrow> Some (Inl out, st3)
      | (Inr u, st3) \<Rightarrow>
     (case main_try s ev (emit JoystickModuleInit (emit PygameInit st3)) of
        None \<Rightarrow> None
      | Some (e, st4) \<Rightarrow>
          Some (Inr (),
                logging_log INFO (Msg ''Pygame exited cleanly.'')
                  (emit PygameQuit
                    (logging_log ERROR (MsgExc ''An unexpected error occurred: '' e) st4)))))))"

fun process_status :: "outcome + unit \<Rightarrow> int" where
  "process_status (Inl out) = exit_code out"
| "process_status (Inr u) = 0"

section \<open>Rounding to a double\<close>

text \<open>Ground terms of the float model are evaluated by the simplifier with \<open>float_eval\<close>.\<close>

lemma floor_numeral_div: "\<lfloor>numeral a / numeral b :: rat\<rfloor> = numeral a div numeral b"
  using floor_divide_of_int_eq [of "numeral a" "numeral b", where 'a = rat] by simp
lemma floor_neg_numeral_div: "\<lfloor>- (numeral a / numeral b) :: rat\<rfloor> = - numeral a div numeral b"
  using floor_divide_of_int_eq [of "- numeral a" "numeral b", where 'a = rat] by simp
lemma ceiling_numeral_div: "\<lceil>numeral a / numeral b :: rat\<rceil> = - (- numeral a div numeral b)"
  using floor_divide_of_int_eq [of "- numeral a" "numeral b", where 'a = rat] by (simp add: ceiling_def)
lemma ceiling_neg_numeral_div: "\<lceil>- (numeral a / numeral b) :: rat\<rceil> = - (numeral a div numeral b)"
  using floor_divide_of_int_eq [of "numeral a" "numeral b", where 'a = rat] by (simp add: ceiling_def)

lemmas float_eval = second_pos_def int_mul_float_def float_of_int_def to_double_def ilog2_def pow2_def
  round_half_even_def trunc_def Let_def compute_bitlen floor_numeral_div floor_neg_numeral_div
  ceiling_numeral_div ceiling_neg_numeral_div

lemma pow2_pos: "0 < pow2 q"
  by (simp add: pow2_def)

lemma round_half_even_le: "x \<le> of_int n \<Longrightarrow> round_half_even x \<le> n"
proof -
  assume h: "x \<le> of_int n"
  have f: "\<lfloor>x\<rfloor> \<le> n" using h by (simp add: floor_le_iff)
  show ?thesis
  proof (cases "x = of_int \<lfloor>x\<rfloor>")
    case True
    then show ?thesis using f by (simp add: round_half_even_def Let_def)
  next
    case False
    then have "of_int \<lfloor>x\<rfloor> \<noteq> x" by metis
    with of_int_floor_le [of x] have "of_int \<lfloor>x\<rfloor> < x" by (rule le_neq_trans)
    then have "of_int \<lfloor>x\<rfloor> < (of_int n :: rat)" using h by linarith
    then have "\<lfloor>x\<rfloor> < n" by simp
    then show ?thesis by (simp add: round_half_even_def Let_def)
  qed
qed

lemma round_half_even_ge: "of_int n \<le> x \<Longrightarrow> n \<le> round_half_even x"
proof -
  assume "of_int n \<le> x"
  then have "n \<le> \<lfloor>x\<rfloor>" by (simp add: le_floor_iff)
  then show ?thesis by (simp add: round_half_even_def Let_def)
qed

lemma ilog2_le: 
  assumes "0 < x" "x < 2 ^ 53" shows "ilog2 x \<le> 52"
proof (cases "1 \<le> x")
  case True
  have "\<lfloor>x\<rfloor> < 2 ^ 53" using assms(2) by (simp add: floor_less_iff)
  then have "bitlen \<lfloor>x\<rfloor> \<le> 53" by (simp add: bitlen_le_iff_power)
  then show ?thesis using True by (simp add: ilog2_def)
next
  case False
  then show ?thesis using bitlen_nonneg [of "\<lceil>1 / x\<rceil> - 1"] by (simp add: ilog2_def)
qed

lemma to_double_between_aux:
  assumes q: "q \<le> 0" and lo: "of_int lo \<le> x" and hi: "x \<le> of_int hi"
  shows "of_int lo \<le> of_int (round_half_even (x / pow2 q)) * pow2 q
       \<and> of_int (round_half_even (x / pow2 q)) * pow2 q \<le> of_int hi"
proof -
  define k where "k = nat (- q)"
  have p: "pow2 q = 1 / 2 ^ k" using q by (auto simp: pow2_def k_def)
  have xs: "x / pow2 q = x * 2 ^ k" by (simp add: p)
  have "of_int (lo * 2 ^ k) \<le> x * 2 ^ k" using lo by simp
  then have a: "lo * 2 ^ k \<le> round_half_even (x * 2 ^ k)" by (rule round_half_even_ge)
  have "x * 2 ^ k \<le> of_int (hi * 2 ^ k)" using hi by simp
  then have b: "round_half_even (x * 2 ^ k) \<le> hi * 2 ^ k" by (rule round_half_even_le)
  have "(of_int (lo * 2 ^ k) :: rat) \<le> of_int (round_half_even (x * 2 ^ k))"
    using a by (simp only: of_int_le_iff)
  then have a': "of_int lo \<le> of_int (round_half_even (x * 2 ^ k)) / (2 ^ k :: rat)"
    by (simp add: pos_le_divide_eq)
  have "(of_int (round_half_even (x * 2 ^ k)) :: rat) \<le> of_int (hi * 2 ^ k)"
    using b by (simp only: of_int_le_iff)
  then have b': "of_int (round_half_even (x * 2 ^ k)) / (2 ^ k :: rat) \<le> of_int hi"
    by (simp add: pos_divide_le_eq)
  show ?thesis using a' b' by (simp add: xs p)
qed

lemma to_double_between:
  assumes lo: "of_int lo \<le> x" and hi: "x \<le> of_int hi"
    and l: "- (2 ^ 52) \<le> lo" and h: "hi \<le> 2 ^ 52"
  shows "\<exists>r. to_double x = Finite r \<and> of_int lo \<le> r \<and> r \<le> of_int hi"
proof (cases "x = 0")
  case True
  then show ?thesis using lo hi by (simp add: to_double_def)
next
  case False
  define q where "q = max (ilog2 \<bar>x\<bar> - 52) (- 1074)"
  define r where "r = of_int (round_half_even (x / pow2 q)) * pow2 q"
  define B :: rat where "B = 2 ^ 52"
  have "(of_int (- (2 ^ 52)) :: rat) \<le> of_int lo" using l by (simp only: of_int_le_iff)
  then have x0: "- B \<le> of_int lo" by (simp add: B_def)
  have "(of_int hi :: rat) \<le> of_int (2 ^ 52)" using h by (simp only: of_int_le_iff)
  then have x1: "of_int hi \<le> B" by (simp add: B_def)
  have "B < 2 ^ 53" unfolding B_def by simp
  moreover have "\<bar>x\<bar> \<le> B" using lo hi x0 x1 by linarith
  ultimately have ax: "\<bar>x\<bar> < 2 ^ 53" by (rule le_less_trans [rotated])
  have "0 < \<bar>x\<bar>" using False by simp
  then have "ilog2 \<bar>x\<bar> \<le> 52" using ax by (rule ilog2_le)
  then have q: "q \<le> 0" by (simp add: q_def)
  have b: "of_int lo \<le> r \<and> r \<le> of_int hi"
    unfolding r_def using q lo hi by (rule to_double_between_aux)
  have "\<bar>r\<bar> \<le> B" using b x0 x1 by linarith
  moreover have "B < 2 ^ 1024" unfolding B_def by simp
  ultimately have "\<bar>r\<bar> < 2 ^ 1024" by (rule le_less_trans)
  then have "\<not> pow2 1024 \<le> \<bar>r\<bar>" by (simp add: pow2_def)
  then have "to_double x = Finite r"
    using False by (simp add: to_double_def Let_def q_def r_def)
  then show ?thesis using b by blast
qed

text \<open>
  What \<open>to_double\<close> returns is a double, and the nearest one: a significand of at most
  53 bits at an exponent from -1074 on, within half a unit of the last place of the
  rational it rounds.
\<close>

lemma ilog2_bounds:
  assumes "0 < x"
  shows "pow2 (ilog2 x) \<le> x \<and> x < pow2 (ilog2 x + 1)"
proof (cases "1 \<le> x")
  case True
  define n where "n = \<lfloor>x\<rfloor>"
  have n: "0 < n" using True by (simp add: n_def)
  have b: "2 ^ nat (bitlen n - 1) \<le> n" "n < 2 ^ nat (bitlen n)"
    using bitlen_bounds [OF n] by simp_all
  have p: "1 \<le> bitlen n" using n by (simp add: bitlen_alt_def) 
  have "(2 ^ nat (bitlen n - 1) :: rat) = of_int (2 ^ nat (bitlen n - 1))" by simp
  also have "\<dots> \<le> of_int n" using b(1) by (simp only: of_int_le_iff)
  also have "\<dots> \<le> x" by (simp add: n_def)
  finally have lo: "2 ^ nat (bitlen n - 1) \<le> x" .
  have "n + 1 \<le> 2 ^ nat (bitlen n)" using b(2) by simp
  then have "(of_int (n + 1) :: rat) \<le> of_int (2 ^ nat (bitlen n))" by (simp only: of_int_le_iff)
  then have "(of_int (n + 1) :: rat) \<le> 2 ^ nat (bitlen n)" by simp
  moreover have "x < of_int (n + 1)" unfolding n_def by linarith
  ultimately have hi: "x < 2 ^ nat (bitlen n)" by (rule less_le_trans [rotated])
  have i: "ilog2 x = bitlen n - 1" using True by (simp add: ilog2_def n_def)
  have e1: "pow2 (bitlen n - 1) = 2 ^ nat (bitlen n - 1)" using p by (simp add: pow2_def)
  have e2: "pow2 (bitlen n - 1 + 1) = 2 ^ nat (bitlen n)" using p by (simp add: pow2_def)
  show ?thesis unfolding i e1 e2 using lo hi by blast
next
  case False
  define y where "y = 1 / x"
  define m where "m = \<lceil>y\<rceil> - 1"
  have y: "1 < y" using False assms by (simp add: y_def)
  then have "1 < \<lceil>y\<rceil>" by (simp add: less_ceiling_iff)
  then have m: "0 < m" by (simp add: m_def)
  have my: "of_int m < y" "y \<le> of_int (m + 1)" by (simp_all add: m_def) linarith
  have b: "2 ^ nat (bitlen m - 1) \<le> m" "m < 2 ^ nat (bitlen m)"
    using bitlen_bounds [OF m] by simp_all
  have p: "1 \<le> bitlen m" using m by (simp add: bitlen_alt_def)
  have "(2 ^ nat (bitlen m - 1) :: rat) = of_int (2 ^ nat (bitlen m - 1))" by simp
  also have "\<dots> \<le> of_int m" using b(1) by (simp only: of_int_le_iff)
  also have "\<dots> < y" by (rule my(1))
  finally have lo: "2 ^ nat (bitlen m - 1) < y" .
  have "m + 1 \<le> 2 ^ nat (bitlen m)" using b(2) by simp
  then have "(of_int (m + 1) :: rat) \<le> of_int (2 ^ nat (bitlen m))" by (simp only: of_int_le_iff)
  then have "(of_int (m + 1) :: rat) \<le> 2 ^ nat (bitlen m)" by simp
  with my(2) have hi: "y \<le> 2 ^ nat (bitlen m)" by (rule order_trans)
  have x: "x = 1 / y" using assms by (simp add: y_def)
  have ypos: "0 < y" using y by simp
  have l1: "1 / 2 ^ nat (bitlen m) \<le> x"
    unfolding x using hi ypos by (simp add: field_simps)
  have "1 / y < 1 / 2 ^ nat (bitlen m - 1)"
    using lo ypos by (simp add: field_simps)
  then have l2: "x < 1 / 2 ^ nat (bitlen m - 1)" by (simp add: x)
  have i: "ilog2 x = - bitlen m" using False by (simp add: ilog2_def m_def y_def)
  have e1: "pow2 (- bitlen m) = 1 / 2 ^ nat (bitlen m)" using p by (simp add: pow2_def)
  have e2: "pow2 (- bitlen m + 1) = 1 / 2 ^ nat (bitlen m - 1)"
  proof (cases "bitlen m = 1")
    case True
    then show ?thesis by (simp add: pow2_def)
  next
    case False
    then have "1 < bitlen m" using p by simp
    moreover have "nat (- (- bitlen m + 1)) = nat (bitlen m - 1)" by simp
    ultimately show ?thesis by (simp only: pow2_def) simp
  qed
  show ?thesis unfolding i e1 e2 using l1 l2 by blast
qed

lemma round_half_even_near: "\<bar>of_int (round_half_even z) - z\<bar> \<le> 1 / 2"
proof -
  define f where "f = \<lfloor>z\<rfloor>"
  define d where "d = z - of_int f"
  have d: "0 \<le> d" "d < 1" unfolding d_def f_def by linarith+
  have z: "z = of_int f + d" by (simp add: d_def)
  have "round_half_even z = f \<and> d \<le> 1 / 2 \<or> round_half_even z = f + 1 \<and> 1 / 2 \<le> d"
    unfolding round_half_even_def Let_def f_def [symmetric] d_def [symmetric]
    by (cases "d < 1 / 2"; cases "1 / 2 < d") auto
  then show ?thesis using d unfolding z by (auto simp: abs_if)
qed

lemma to_double_near:
  assumes "to_double x = Finite r"
  shows "\<bar>r - x\<bar> \<le> pow2 (max (ilog2 \<bar>x\<bar> - 52) (- 1074)) / 2"
proof (cases "x = 0")
  case True
  then show ?thesis using assms pow2_pos [of "max (ilog2 \<bar>x\<bar> - 52) (- 1074)"]
    by (simp add: to_double_def)
next
  case False
  define q where "q = max (ilog2 \<bar>x\<bar> - 52) (- 1074)"
  have r: "r = of_int (round_half_even (x / pow2 q)) * pow2 q"
    using assms False by (simp add: to_double_def Let_def q_def split: if_splits)
  have p: "0 < pow2 q" by (rule pow2_pos)
  have "r - x = (of_int (round_half_even (x / pow2 q)) - x / pow2 q) * pow2 q"
    using p by (simp add: r left_diff_distrib)
  then have "\<bar>r - x\<bar> = \<bar>of_int (round_half_even (x / pow2 q)) - x / pow2 q\<bar> * pow2 q"
    using p by (simp add: abs_mult)
  also have "\<dots> \<le> (1 / 2) * pow2 q"
    using round_half_even_near [of "x / pow2 q"] p by (intro mult_right_mono) simp_all
  finally show ?thesis by (simp add: q_def)
qed

lemma pow2_powi: "pow2 n = 2 powi n"
  by (simp add: pow2_def power_int_def power_one_over)

lemma to_double_representable:
  assumes "to_double x = Finite r"
  shows "\<exists>m q. r = of_int m * pow2 q \<and> \<bar>m\<bar> \<le> 2 ^ 53 \<and> - 1074 \<le> q"
proof (cases "x = 0")
  case True
  then have "r = of_int 0 * pow2 0" using assms by (simp add: to_double_def)
  then show ?thesis by (intro exI [of _ 0] exI [of _ "0 :: int"]) simp
next
  case False
  define e where "e = ilog2 \<bar>x\<bar>"
  define q where "q = max (e - 52) (- 1074)"
  define m where "m = round_half_even (x / pow2 q)"
  define z where "z = x / pow2 q"
  have r: "r = of_int m * pow2 q"
    using assms False by (simp add: to_double_def Let_def q_def e_def m_def split: if_splits)
  have p: "0 < pow2 q" by (rule pow2_pos)
  have "\<bar>x\<bar> < pow2 (e + 1)" using ilog2_bounds [of "\<bar>x\<bar>"] False by (simp add: e_def)
  also have "pow2 (e + 1) = pow2 q * pow2 (e + 1 - q)"
    using power_int_add [of "2 :: rat" q "e + 1 - q"] by (simp add: pow2_powi)
  also have "pow2 (e + 1 - q) \<le> pow2 53"
    unfolding pow2_powi by (rule power_int_increasing) (simp_all add: q_def)
  finally have "\<bar>x\<bar> < pow2 q * pow2 53" using p by simp
  then have "\<bar>x\<bar> / pow2 q < pow2 53" using p by (simp add: field_simps)
  also have "pow2 53 = 2 ^ 53" by (simp add: pow2_def)
  finally have "\<bar>x\<bar> / pow2 q < 2 ^ 53" .
  moreover have "\<bar>x / pow2 q\<bar> = \<bar>x\<bar> / pow2 q"
    by (simp only: abs_divide abs_of_pos [OF p])
  ultimately have "\<bar>x / pow2 q\<bar> < 2 ^ 53" by (simp only:)
  then have b: "\<bar>z\<bar> < 2 ^ 53" by (simp only: z_def)
  have "z \<le> 2 ^ 53" using b by linarith
  then have "z \<le> of_int (2 ^ 53)" by simp
  then have u: "m \<le> 2 ^ 53" unfolding m_def z_def [symmetric] by (rule round_half_even_le)
  have "- (2 ^ 53) \<le> z" using b by linarith
  then have "of_int (- (2 ^ 53)) \<le> z" by simp
  then have l: "- (2 ^ 53) \<le> m" unfolding m_def z_def [symmetric] by (rule round_half_even_ge)
  have "\<bar>m\<bar> \<le> 2 ^ 53" using u l by simp
  moreover have "- 1074 \<le> q" by (simp add: q_def)
  ultimately show ?thesis using r by blast
qed

section \<open>The target of center\_mouse\<close>

lemma in_unit_cases: "in_unit x \<Longrightarrow> \<exists>a. x = Finite a \<and> 0 \<le> a \<and> a \<le> 1"
  by (cases x) (simp_all add: in_unit_def)

lemma sint32_bounds: "- (2 ^ 31) \<le> sint (w :: 32 word) \<and> sint w < 2 ^ 31"
  using sint_ge [of w] sint_lt [of w] by simp

lemma float_of_int_exact:
  assumes "- (2 ^ 52) \<le> n" "n \<le> 2 ^ 52"
  shows "float_of_int n = Inr (Finite (of_int n))"
proof -
  have "\<exists>r. to_double (of_int n) = Finite r \<and> of_int n \<le> r \<and> r \<le> of_int n"
    using assms by (intro to_double_between) simp_all
  then have "to_double (of_int n) = Finite (of_int n)" by auto
  then show ?thesis by (simp add: float_of_int_def)
qed

lemma trunc_between:
  "of_int lo \<le> r \<Longrightarrow> r \<le> of_int hi \<Longrightarrow> lo \<le> trunc r \<and> trunc r \<le> hi"
  by (auto simp: trunc_def le_floor_iff floor_le_iff ceiling_le_iff le_ceiling_iff; linarith)

lemma second_pos_between:
  assumes u: "0 \<le> a" "a \<le> 1" and n: "- (2 ^ 31) \<le> n" "n < 2 ^ 31"
  shows "\<exists>r. int_mul_float n (Finite a) = Inr (Finite r)
           \<and> second_pos n (Finite a) = Inr (trunc r)
           \<and> min 0 n \<le> trunc r \<and> trunc r \<le> max 0 n"
proof -
  have c: "float_of_int n = Inr (Finite (of_int n))"
    using n by (intro float_of_int_exact) simp_all
  have lo: "of_int (min 0 n) \<le> of_int n * a"
  proof (cases "0 \<le> n")
    case True
    then show ?thesis using u by simp
  next
    case False
    then have "of_int n * a \<ge> of_int n * 1" using u by (intro mult_left_mono_neg) simp_all
    then show ?thesis using False by simp
  qed
  have hi: "of_int n * a \<le> of_int (max 0 n)"
  proof (cases "0 \<le> n")
    case True
    then have "of_int n * a \<le> of_int n * 1" using u by (intro mult_left_mono) simp_all
    then show ?thesis using True by simp
  next
    case False
    then have "of_int n * a \<le> 0" using u by (simp add: mult_le_0_iff)
    then show ?thesis using False by simp
  qed
  have "\<exists>r. to_double (of_int n * a) = Finite r \<and> of_int (min 0 n) \<le> r \<and> r \<le> of_int (max 0 n)"
    using lo hi n by (intro to_double_between) simp_all
  then obtain r where r: "to_double (of_int n * a) = Finite r"
      "of_int (min 0 n) \<le> r" "r \<le> of_int (max 0 n)" by blast
  have m: "int_mul_float n (Finite a) = Inr (Finite r)"
    by (simp add: int_mul_float_def c r)
  have "second_pos n (Finite a) = Inr (trunc r)"
    by (simp add: second_pos_def m)
  then show ?thesis using m trunc_between [OF r(2) r(3)] by blast
qed

section \<open>What center\_mouse does\<close>

lemma strip_id: "s \<noteq> [] \<Longrightarrow> \<not> isspace (hd s) \<Longrightarrow> \<not> isspace (last s) \<Longrightarrow> strip s = s"
proof -
  assume a: "s \<noteq> []" "\<not> isspace (hd s)" "\<not> isspace (last s)"
  have 1: "dropWhile isspace s = s" using a by (cases s) simp_all
  have "rev s \<noteq> []" "\<not> isspace (hd (rev s))" using a by (simp_all add: hd_rev)
  then have 2: "dropWhile isspace (rev s) = rev s" by (cases "rev s") simp_all
  show ?thesis by (simp add: strip_def 1 2)
qed

lemma strip_newline: "strip [CHR 0x0A] = []"
  by (simp add: strip_def isspace_def)

lemma py_print_framed:
  assumes "\<not> isspace a" "\<not> isspace z"
  shows "py_print (a # m @ [z]) st = logging_log INFO (Msg (a # m @ [z])) st"
proof -
  have "strip (a # m @ [z]) = a # m @ [z]" using assms by (intro strip_id) simp_all
  then show ?thesis by (simp add: py_print_def LogRedirect_write_def strip_newline)
qed

lemma print_initial:
  "py_print (''Mouse moved to initial position: ('' @ str_int 0 @ '', '' @ str_int 0 @ '')'') st
     = logging_log INFO (Msg ''Mouse moved to initial position: (0, 0)'') st"
proof -
  have z: "str_int 0 = ''0''" by code_simp
  show ?thesis unfolding z
    using py_print_framed [of "CHR ''M''" "CHR '')''" "''ouse moved to initial position: (0, 0''" st]
    by (simp add: isspace_def)
qed

lemma print_second:
  "py_print (''Mouse moved to second position: ('' @ str_int x @ '', '' @ str_int y @ '')'') st
     = logging_log INFO
         (Msg (''Mouse moved to second position: ('' @ str_int x @ '', '' @ str_int y @ '')'')) st"
  using py_print_framed [of "CHR ''M''" "CHR '')''"
      "''ouse moved to second position: ('' @ str_int x @ '', '' @ str_int y" st]
  by (simp add: isspace_def)

lemma in_c_int_between: "- (2 ^ 31) \<le> n \<Longrightarrow> n < 2 ^ 31 \<Longrightarrow> min 0 n \<le> p \<Longrightarrow> p \<le> max 0 n \<Longrightarrow> in_c_int p"
  by (simp add: in_c_int_def min_def max_def split: if_splits)

lemma center_mouse_run:
  assumes x: "second_pos (sint (SM_CXSCREEN scr)) fx = Inr tx" 
    and y: "second_pos (sint (SM_CYSCREEN scr)) fy = Inr ty"
    and cx: "in_c_int tx" and cy: "in_c_int ty"
  shows "center_mouse scr fx fy st =
           (Inr (), st\<lparr>cursor := (tx, ty),
                       trace := trace st @
                         [CursorSet 0 0,
                          Logged INFO (Msg ''Mouse moved to initial position: (0, 0)''),
                          Slept 50,
                          CursorSet tx ty,
                          Logged INFO (Msg (''Mouse moved to second position: ('' @ str_int tx
                                             @ '', '' @ str_int ty @ '')''))]\<rparr>)"
proof -
  have z: "in_c_int 0" by (simp add: in_c_int_def)
  show ?thesis
    unfolding center_mouse_def Let_def x y print_initial print_second
    by (simp add: SetCursorPos_def z cx cy time_sleep_def logging_log_def emit_def)
qed

lemma center_mouse_in_unit:
  assumes "in_unit fx" "in_unit fy"
  shows "\<exists>px py.
      int_mul_float (sint (SM_CXSCREEN scr)) fx = Inr (Finite px)
    \<and> int_mul_float (sint (SM_CYSCREEN scr)) fy = Inr (Finite py)
    \<and> min 0 (sint (SM_CXSCREEN scr)) \<le> trunc px \<and> trunc px \<le> max 0 (sint (SM_CXSCREEN scr))
    \<and> min 0 (sint (SM_CYSCREEN scr)) \<le> trunc py \<and> trunc py \<le> max 0 (sint (SM_CYSCREEN scr))
    \<and> center_mouse scr fx fy st =
           (Inr (), st\<lparr>cursor := (trunc px, trunc py),
                       trace := trace st @
                         [CursorSet 0 0,
                          Logged INFO (Msg ''Mouse moved to initial position: (0, 0)''),
                          Slept 50,
                          CursorSet (trunc px) (trunc py),
                          Logged INFO (Msg (''Mouse moved to second position: ('' @ str_int (trunc px)
                                             @ '', '' @ str_int (trunc py) @ '')''))]\<rparr>)"
proof -
  obtain a where a: "fx = Finite a" "0 \<le> a" "a \<le> 1"
    using in_unit_cases [OF assms(1)] by blast
  obtain b where b: "fy = Finite b" "0 \<le> b" "b \<le> 1"
    using in_unit_cases [OF assms(2)] by blast
  let ?w = "sint (SM_CXSCREEN scr)" and ?h = "sint (SM_CYSCREEN scr)"
  have w: "- (2 ^ 31) \<le> ?w" "?w < 2 ^ 31" using sint32_bounds [of "SM_CXSCREEN scr"] by simp_all
  have h: "- (2 ^ 31) \<le> ?h" "?h < 2 ^ 31" using sint32_bounds [of "SM_CYSCREEN scr"] by simp_all
  obtain px where px: "int_mul_float ?w (Finite a) = Inr (Finite px)"
      "second_pos ?w (Finite a) = Inr (trunc px)" "min 0 ?w \<le> trunc px" "trunc px \<le> max 0 ?w"
    using second_pos_between [OF a(2) a(3) w] by blast
  obtain py where py: "int_mul_float ?h (Finite b) = Inr (Finite py)"
      "second_pos ?h (Finite b) = Inr (trunc py)" "min 0 ?h \<le> trunc py" "trunc py \<le> max 0 ?h"
    using second_pos_between [OF b(2) b(3) h] by blast
  have cx: "in_c_int (trunc px)" using w px(3) px(4) by (rule in_c_int_between)
  have cy: "in_c_int (trunc py)" using h py(3) py(4) by (rule in_c_int_between)
  have "center_mouse scr (Finite a) (Finite b) st =
           (Inr (), st\<lparr>cursor := (trunc px, trunc py),
                       trace := trace st @
                         [CursorSet 0 0,
                          Logged INFO (Msg ''Mouse moved to initial position: (0, 0)''),
                          Slept 50,
                          CursorSet (trunc px) (trunc py),
                          Logged INFO (Msg (''Mouse moved to second position: ('' @ str_int (trunc px)
                                             @ '', '' @ str_int (trunc py) @ '')''))]\<rparr>)"
    using px(2) py(2) cx cy by (rule center_mouse_run)
  then show ?thesis using px py a(1) b(1) by blast
qed

lemma round_trunc_near: "\<bar>py_round x - trunc x\<bar> \<le> 1"
proof -
  have "\<lceil>x\<rceil> \<le> \<lfloor>x\<rfloor> + 1" by (simp add: ceiling_le_iff) linarith
  moreover have "\<lfloor>x\<rfloor> \<le> \<lceil>x\<rceil>" by (rule floor_le_ceiling)
  ultimately show ?thesis
    by (simp add: py_round_def round_half_even_def trunc_def Let_def)
qed

section \<open>Reading the settings\<close>

lemma split_first: "py_getitem (str_split sep v) 0 = Inr (takeWhile (\<lambda>c. c \<noteq> sep) v)"
proof (induction v)
  case Nil
  then show ?case by (simp add: py_getitem_def)
next
  case (Cons c cs)
  then show ?case by (auto simp: py_getitem_def split: list.splits if_splits)
qed

lemma takeWhile_before: "sep \<notin> set a \<Longrightarrow> takeWhile (\<lambda>c. c \<noteq> sep) (a @ sep # b) = a"
  by (induction a) auto

lemma setting_text_eq:
  "setting_text cfg section key =
     try_bind (config_getitem cfg section key) (\<lambda>v. Inr (strip (takeWhile (\<lambda>c. c \<noteq> CHR '';'') v)))"
  by (cases "config_getitem cfg section key") (simp_all add: setting_text_def split_first)

lemma setting_text_class: "setting_text cfg section key = Inl e \<Longrightarrow> class_of e = KeyError"
  by (auto simp: setting_text_eq config_getitem_def split: option.splits)

lemma py_int_class: "py_int t = Inl e \<Longrightarrow> class_of e = ValueError"
  by (auto simp: py_int_def split: prod.splits option.splits)

lemma py_float_class: "py_float t = Inl e \<Longrightarrow> class_of e = ValueError"
  by (auto simp: py_float_def Let_def split: prod.splits option.splits if_splits)

lemma try_bind_Inr: "try_bind m f = Inr b \<longleftrightarrow> (\<exists>a. m = Inr a \<and> f a = Inr b)"
  by (cases m) simp_all

lemma try_bind_Inl: "try_bind m f = Inl e \<longleftrightarrow> m = Inl e \<or> (\<exists>a. m = Inr a \<and> f a = Inl e)"
  by (cases m) simp_all

lemma read_settings_class:
  "read_settings cfg = Inl e \<Longrightarrow> class_of e = KeyError \<or> class_of e = ValueError"
  unfolding read_settings_def
  by (auto simp: try_bind_Inl dest: setting_text_class py_int_class py_float_class split: if_splits)

lemma read_settings_Inr:
  "read_settings cfg = Inr s \<longleftrightarrow>
     (\<exists>td tb tx ty.
        setting_text cfg ''Joystick'' ''device'' = Inr td \<and> py_int td = Inr (device s)
      \<and> setting_text cfg ''Joystick'' ''button'' = Inr tb \<and> py_int tb = Inr (button s)
      \<and> setting_text cfg ''Mouse'' ''center_x'' = Inr tx \<and> py_float tx = Inr (center_x s)
      \<and> setting_text cfg ''Mouse'' ''center_y'' = Inr ty \<and> py_float ty = Inr (center_y s)
      \<and> in_unit (center_x s) \<and> in_unit (center_y s))"
  unfolding read_settings_def
  by (cases s) (auto simp: try_bind_Inr split: if_splits)

lemmas parse_eval = py_int_def py_float_def strip_def isspace_def split_sign_def digits_value_def
  digit_val_def is_digit_def lower_def pow10_def parse_decimal_def parse_exponent_def

lemma load_config_outcome:
  "(\<exists>s. config_found ev \<and> read_settings (config_values ev) = Inr s \<and> load_config ev st = (Inr s, st))
   \<or> ((\<not> config_found ev \<or> (\<exists>e. read_settings (config_values ev) = Inl e))
       \<and> (\<exists>m. load_config ev st = (Inl (SysExit 1), logging_log ERROR m st)))"
proof (cases "config_found ev")
  case False
  then show ?thesis by (auto simp: load_config_def)
next
  case True
  show ?thesis
  proof (cases "read_settings (config_values ev)")
    case (Inr s)
    then show ?thesis using True by (simp add: load_config_def)
  next
    case (Inl e)
    then show ?thesis using True read_settings_class [OF Inl]
      by (auto simp: load_config_def)
  qed
qed

lemma main_load_failed:
  "load_config ev st = (Inl out, st1) \<Longrightarrow> main ev st = Some (Inl out, st1)"
  by (simp add: main_def)

lemma load_config_Inr:
  "load_config ev st = (Inr s, st') \<longleftrightarrow>
     config_found ev \<and> st' = st \<and> read_settings (config_values ev) = Inr s"
  using read_settings_class [of "config_values ev"]
  by (cases "read_settings (config_values ev)") (auto simp: load_config_def)

text \<open>The settings that load\_config returns have both fractions in [0, 1]; main calls
  center\_mouse with these two fractions and no others.\<close>

lemma load_config_in_unit:
  "load_config ev st = (Inr s, st') \<Longrightarrow> in_unit (center_x s) \<and> in_unit (center_y s)"
  by (auto simp: load_config_Inr read_settings_Inr)

lemma setting_text_Inr:
  "setting_text cfg section key = Inr t \<longleftrightarrow>
     (\<exists>v. config_getitem cfg section key = Inr v \<and> t = strip (takeWhile (\<lambda>c. c \<noteq> CHR '';'') v))"
  by (auto simp: setting_text_eq try_bind_Inr)

section \<open>The claims about center\_mouse\<close>

text \<open>
  C4. Whenever center\_mouse is called with fractions that pass the range check of the
  configuration (main calls it with no others, see \<open>load_config_in_unit\<close>), whatever the
  screen and wherever the cursor is, it sets the cursor to (0, 0) first, reports it,
  pauses 50 ms, and only then sets the cursor to the target it computed and reports
  that; nothing else happens and no exception is raised.
\<close>

theorem center_mouse_origin_then_target:
  assumes "in_unit fx" and "in_unit fy"
  shows "\<exists>tx ty.
      second_pos (sint (SM_CXSCREEN scr)) fx = Inr tx
    \<and> second_pos (sint (SM_CYSCREEN scr)) fy = Inr ty
    \<and> center_mouse scr fx fy st =
         (Inr (), st\<lparr>cursor := (tx, ty),
                     trace := trace st @
                       [CursorSet 0 0,
                        Logged INFO (Msg ''Mouse moved to initial position: (0, 0)''),
                        Slept 50,
                        CursorSet tx ty,
                        Logged INFO (Msg (''Mouse moved to second position: ('' @ str_int tx
                                           @ '', '' @ str_int ty @ '')''))]\<rparr>)"
proof -
  obtain px py where
      "int_mul_float (sint (SM_CXSCREEN scr)) fx = Inr (Finite px)"
      "int_mul_float (sint (SM_CYSCREEN scr)) fy = Inr (Finite py)"
      "center_mouse scr fx fy st =
         (Inr (), st\<lparr>cursor := (trunc px, trunc py),
                     trace := trace st @
                       [CursorSet 0 0,
                        Logged INFO (Msg ''Mouse moved to initial position: (0, 0)''),
                        Slept 50,
                        CursorSet (trunc px) (trunc py),
                        Logged INFO (Msg (''Mouse moved to second position: ('' @ str_int (trunc px)
                                           @ '', '' @ str_int (trunc py) @ '')''))]\<rparr>)"
    using center_mouse_in_unit [OF assms, of scr st] by blast
  then show ?thesis by (simp add: second_pos_def)
qed

theorem center_mouse_origin_then_target_witness:
  "in_unit (Finite (1 / 2)) \<and>
   center_mouse \<lparr>SM_CXSCREEN = 1920, SM_CYSCREEN = 1080\<rparr> (Finite (1 / 2)) (Finite (1 / 2))
       \<lparr>cursor = (960, 540), trace = []\<rparr> =
     (Inr (), \<lparr>cursor = (960, 540),
               trace = [CursorSet 0 0,
                        Logged INFO (Msg ''Mouse moved to initial position: (0, 0)''),
                        Slept 50,
                        CursorSet 960 540,
                        Logged INFO (Msg ''Mouse moved to second position: (960, 540)'')]\<rparr>)"
proof -
  let ?scr = "\<lparr>SM_CXSCREEN = 1920, SM_CYSCREEN = 1080\<rparr>"
  let ?st = "\<lparr>cursor = (960, 540), trace = []\<rparr>"
  have u: "in_unit (Finite (1 / 2))" by (simp add: in_unit_def)
  have x: "second_pos 1920 (Finite (1 / 2)) = Inr 960" by (simp add: float_eval)
  have y: "second_pos 1080 (Finite (1 / 2)) = Inr 540" by (simp add: float_eval)
  have s: "str_int 960 = ''960''" "str_int 540 = ''540''" by code_simp+
  obtain tx ty where t: "second_pos (sint (SM_CXSCREEN ?scr)) (Finite (1 / 2)) = Inr tx"
      "second_pos (sint (SM_CYSCREEN ?scr)) (Finite (1 / 2)) = Inr ty"
      "center_mouse ?scr (Finite (1 / 2)) (Finite (1 / 2)) ?st =
         (Inr (), ?st\<lparr>cursor := (tx, ty),
                     trace := trace ?st @
                       [CursorSet 0 0,
                        Logged INFO (Msg ''Mouse moved to initial position: (0, 0)''),
                        Slept 50,
                        CursorSet tx ty,
                        Logged INFO (Msg (''Mouse moved to second position: ('' @ str_int tx
                                           @ '', '' @ str_int ty @ '')''))]\<rparr>)"
    using center_mouse_origin_then_target [OF u u, of ?scr ?st] by blast
  have "tx = 960" "ty = 540" using t(1,2) by (simp_all add: x y)
  then show ?thesis using t(3) u by (simp add: s)
qed

text \<open>
  C10. For fractions in [0, 1] and a screen whose width and height are not negative,
  the target that center\_mouse computes and moves the cursor to lies on the screen:
  0 <= second\_x <= width and 0 <= second\_y <= height. The product is the rounded
  product of doubles, and the bound holds for it just as for the exact one.
\<close>

theorem center_mouse_target_on_screen:
  assumes "in_unit fx" and "in_unit fy"
    and "0 \<le> sint (SM_CXSCREEN scr)" and "0 \<le> sint (SM_CYSCREEN scr)"
  shows "\<exists>second_x second_y.
      second_pos (sint (SM_CXSCREEN scr)) fx = Inr second_x
    \<and> second_pos (sint (SM_CYSCREEN scr)) fy = Inr second_y
    \<and> cursor (snd (center_mouse scr fx fy st)) = (second_x, second_y)
    \<and> 0 \<le> second_x \<and> second_x \<le> sint (SM_CXSCREEN scr)
    \<and> 0 \<le> second_y \<and> second_y \<le> sint (SM_CYSCREEN scr)"
proof -
  obtain px py where p:
      "int_mul_float (sint (SM_CXSCREEN scr)) fx = Inr (Finite px)"
      "int_mul_float (sint (SM_CYSCREEN scr)) fy = Inr (Finite py)"
      "min 0 (sint (SM_CXSCREEN scr)) \<le> trunc px" "trunc px \<le> max 0 (sint (SM_CXSCREEN scr))"
      "min 0 (sint (SM_CYSCREEN scr)) \<le> trunc py" "trunc py \<le> max 0 (sint (SM_CYSCREEN scr))"
      "center_mouse scr fx fy st =
         (Inr (), st\<lparr>cursor := (trunc px, trunc py),
                     trace := trace st @
                       [CursorSet 0 0,
                        Logged INFO (Msg ''Mouse moved to initial position: (0, 0)''),
                        Slept 50,
                        CursorSet (trunc px) (trunc py),
                        Logged INFO (Msg (''Mouse moved to second position: ('' @ str_int (trunc px)
                                           @ '', '' @ str_int (trunc py) @ '')''))]\<rparr>)"
    using center_mouse_in_unit [OF assms(1,2), of scr st] by blast
  have "second_pos (sint (SM_CXSCREEN scr)) fx = Inr (trunc px)"
       "second_pos (sint (SM_CYSCREEN scr)) fy = Inr (trunc py)"
    by (simp_all add: second_pos_def p(1,2))
  moreover have "cursor (snd (center_mouse scr fx fy st)) = (trunc px, trunc py)"
    by (simp add: p(7))
  moreover have "0 \<le> trunc px" "trunc px \<le> sint (SM_CXSCREEN scr)"
    using p(3,4) assms(3) by simp_all
  moreover have "0 \<le> trunc py" "trunc py \<le> sint (SM_CYSCREEN scr)"
    using p(5,6) assms(4) by simp_all
  ultimately show ?thesis by blast
qed

theorem center_mouse_target_on_screen_witness:
  "in_unit (Finite (3152519739159347 / 4503599627370496)) \<and> in_unit (Finite 1)
   \<and> 0 \<le> sint (10 :: 32 word) \<and> 0 \<le> sint (1080 :: 32 word)
   \<and> cursor (snd (center_mouse \<lparr>SM_CXSCREEN = 10, SM_CYSCREEN = 1080\<rparr>
                     (Finite (3152519739159347 / 4503599627370496)) (Finite 1)
                     \<lparr>cursor = (3, 4), trace = []\<rparr>)) = (7, 1080)"
proof -
  let ?scr = "\<lparr>SM_CXSCREEN = 10, SM_CYSCREEN = 1080\<rparr>"
  let ?fx = "Finite (3152519739159347 / 4503599627370496)"
  have u: "in_unit ?fx" "in_unit (Finite 1)" by (simp_all add: in_unit_def)
  have n: "0 \<le> sint (SM_CXSCREEN ?scr)" "0 \<le> sint (SM_CYSCREEN ?scr)" by simp_all
  have x: "second_pos 10 ?fx = Inr 7" by (simp add: float_eval)
  have y: "second_pos 1080 (Finite 1) = Inr 1080" by (simp add: float_eval)
  obtain tx ty where t: "second_pos (sint (SM_CXSCREEN ?scr)) ?fx = Inr tx"
      "second_pos (sint (SM_CYSCREEN ?scr)) (Finite 1) = Inr ty"
      "cursor (snd (center_mouse ?scr ?fx (Finite 1) \<lparr>cursor = (3, 4), trace = []\<rparr>)) = (tx, ty)"
    using center_mouse_target_on_screen [OF u n, of "\<lparr>cursor = (3, 4), trace = []\<rparr>"] by blast
  have "tx = 7" "ty = 1080" using t(1,2) by (simp_all add: x y)
  then show ?thesis using t(3) u by simp
qed

text \<open>
  C1, as the specification states it: the target is round(width * fracX),
  round(height * fracY). On a 1920 x 1080 screen with the fractions 0.0009765625 and 0.5
  the products are 1.875 and 540.0; rounding gives (2, 540), center\_mouse moves the
  cursor to (1, 540).
\<close>

theorem center_mouse_rounds_counterexample:
  "in_unit (Finite (1 / 1024)) \<and> in_unit (Finite (1 / 2))
   \<and> int_mul_float 1920 (Finite (1 / 1024)) = Inr (Finite (15 / 8))
   \<and> spec_target 1920 (Finite (1 / 1024)) = Inr 2
   \<and> spec_target 1080 (Finite (1 / 2)) = Inr 540
   \<and> cursor (snd (center_mouse \<lparr>SM_CXSCREEN = 1920, SM_CYSCREEN = 1080\<rparr>
                     (Finite (1 / 1024)) (Finite (1 / 2))
                     \<lparr>cursor = (0, 0), trace = []\<rparr>)) = (1, 540)"
proof -
  have x: "second_pos (sint (SM_CXSCREEN \<lparr>SM_CXSCREEN = 1920, SM_CYSCREEN = 1080\<rparr>))
             (Finite (1 / 1024)) = Inr 1"
    by (simp add: float_eval)
  have y: "second_pos (sint (SM_CYSCREEN \<lparr>SM_CXSCREEN = 1920, SM_CYSCREEN = 1080\<rparr>))
             (Finite (1 / 2)) = Inr 540"
    by (simp add: float_eval)
  have c: "in_c_int 1" "in_c_int 540" by (simp_all add: in_c_int_def)
  have "cursor (snd (center_mouse \<lparr>SM_CXSCREEN = 1920, SM_CYSCREEN = 1080\<rparr>
                     (Finite (1 / 1024)) (Finite (1 / 2))
                     \<lparr>cursor = (0, 0), trace = []\<rparr>)) = (1, 540)"
    by (simp add: center_mouse_run [OF x y c])
  moreover have "int_mul_float 1920 (Finite (1 / 1024)) = Inr (Finite (15 / 8))"
    by (simp add: float_eval)
  moreover have "spec_target 1920 (Finite (1 / 1024)) = Inr 2"
    by (simp add: spec_target_def py_round_def float_eval)
  moreover have "spec_target 1080 (Finite (1 / 2)) = Inr 540"
    by (simp add: spec_target_def py_round_def float_eval)
  ultimately show ?thesis by (simp add: in_unit_def)
qed

text \<open>
  C1, amended: for fractions in [0, 1] and every screen, the target is
  (int(width * fracX), int(height * fracY)): each product of doubles is truncated
  towards zero, not rounded to the nearest integer, so that it is at most one pixel
  away from the rounded value that the specification names.
\<close>

theorem center_mouse_target_truncated:
  assumes "in_unit fx" and "in_unit fy"
  shows "\<exists>px py.
      int_mul_float (sint (SM_CXSCREEN scr)) fx = Inr (Finite px)
    \<and> int_mul_float (sint (SM_CYSCREEN scr)) fy = Inr (Finite py)
    \<and> cursor (snd (center_mouse scr fx fy st)) = (trunc px, trunc py)
    \<and> spec_target (sint (SM_CXSCREEN scr)) fx = Inr (py_round px)
    \<and> spec_target (sint (SM_CYSCREEN scr)) fy = Inr (py_round py)
    \<and> \<bar>py_round px - trunc px\<bar> \<le> 1 \<and> \<bar>py_round py - trunc py\<bar> \<le> 1"
proof -
  obtain px py where p:
      "int_mul_float (sint (SM_CXSCREEN scr)) fx = Inr (Finite px)"
      "int_mul_float (sint (SM_CYSCREEN scr)) fy = Inr (Finite py)"
      "center_mouse scr fx fy st =
         (Inr (), st\<lparr>cursor := (trunc px, trunc py),
                     trace := trace st @
                       [CursorSet 0 0,
                        Logged INFO (Msg ''Mouse moved to initial position: (0, 0)''),
                        Slept 50,
                        CursorSet (trunc px) (trunc py),
                        Logged INFO (Msg (''Mouse moved to second position: ('' @ str_int (trunc px)
                                           @ '', '' @ str_int (trunc py) @ '')''))]\<rparr>)"
    using center_mouse_in_unit [OF assms, of scr st] by blast
  have "cursor (snd (center_mouse scr fx fy st)) = (trunc px, trunc py)"
    by (simp add: p(3))
  moreover have "spec_target (sint (SM_CXSCREEN scr)) fx = Inr (py_round px)"
       "spec_target (sint (SM_CYSCREEN scr)) fy = Inr (py_round py)"
    by (simp_all add: spec_target_def p(1,2))
  ultimately show ?thesis using p(1,2) round_trunc_near by blast
qed

theorem center_mouse_target_truncated_witness:
  "in_unit (Finite (1 / 1024)) \<and> in_unit (Finite (1 / 2))
   \<and> cursor (snd (center_mouse \<lparr>SM_CXSCREEN = 1920, SM_CYSCREEN = 1080\<rparr>
                     (Finite (1 / 1024)) (Finite (1 / 2))
                     \<lparr>cursor = (9, 9), trace = []\<rparr>)) = (trunc (15 / 8), trunc 540)
   \<and> trunc (15 / 8) = 1 \<and> py_round (15 / 8) = 2"
proof -
  let ?scr = "\<lparr>SM_CXSCREEN = 1920, SM_CYSCREEN = 1080\<rparr>"
  have u: "in_unit (Finite (1 / 1024))" "in_unit (Finite (1 / 2))" by (simp_all add: in_unit_def)
  have x: "int_mul_float 1920 (Finite (1 / 1024)) = Inr (Finite (15 / 8))"
    by (simp add: float_eval)
  have y: "int_mul_float 1080 (Finite (1 / 2)) = Inr (Finite 540)"
    by (simp add: float_eval)
  obtain px py where t: "int_mul_float (sint (SM_CXSCREEN ?scr)) (Finite (1 / 1024)) = Inr (Finite px)"
      "int_mul_float (sint (SM_CYSCREEN ?scr)) (Finite (1 / 2)) = Inr (Finite py)"
      "cursor (snd (center_mouse ?scr (Finite (1 / 1024)) (Finite (1 / 2))
                      \<lparr>cursor = (9, 9), trace = []\<rparr>)) = (trunc px, trunc py)"
    using center_mouse_target_truncated [OF u, of ?scr "\<lparr>cursor = (9, 9), trace = []\<rparr>"] by blast
  have e: "px = 15 / 8" "py = 540" using t(1,2) by (simp_all add: x y)
  have c: "cursor (snd (center_mouse ?scr (Finite (1 / 1024)) (Finite (1 / 2))
                      \<lparr>cursor = (9, 9), trace = []\<rparr>)) = (trunc (15 / 8), trunc 540)"
    using t(3) unfolding e .
  have v: "trunc (15 / 8) = 1" "py_round (15 / 8) = 2" by (simp_all add: py_round_def float_eval)
  from u c v show ?thesis by blast
qed

section \<open>The claims about load\_config\<close>

text \<open>
  C3. load\_config ends the process with status 1, after logging one error, whenever
  the file could not be read, one of the four keys is missing, one of the values
  (cleared of its comment) is not a number for \<open>int\<close> or \<open>float\<close>, or center\_x or
  center\_y is outside [0.0, 1.0]. main then ends at once: its only effect is that
  log record, so no device has been enumerated. The instance shown after it is
  center\_x = 1.5.
\<close>

theorem load_config_fatal:
  assumes "\<not> config_found ev
     \<or> (\<exists>e. config_getitem (config_values ev) ''Joystick'' ''device'' = Inl e)
     \<or> (\<exists>e. config_getitem (config_values ev) ''Joystick'' ''button'' = Inl e)
     \<or> (\<exists>e. config_getitem (config_values ev) ''Mouse'' ''center_x'' = Inl e)
     \<or> (\<exists>e. config_getitem (config_values ev) ''Mouse'' ''center_y'' = Inl e)
     \<or> (\<exists>t e. setting_text (config_values ev) ''Joystick'' ''device'' = Inr t \<and> py_int t = Inl e)
     \<or> (\<exists>t e. setting_text (config_values ev) ''Joystick'' ''button'' = Inr t \<and> py_int t = Inl e)
     \<or> (\<exists>t e. setting_text (config_values ev) ''Mouse'' ''center_x'' = Inr t \<and> py_float t = Inl e)
     \<or> (\<exists>t e. setting_text (config_values ev) ''Mouse'' ''center_y'' = Inr t \<and> py_float t = Inl e)
     \<or> (\<exists>t x. setting_text (config_values ev) ''Mouse'' ''center_x'' = Inr t
                \<and> py_float t = Inr x \<and> \<not> in_unit x)
     \<or> (\<exists>t y. setting_text (config_values ev) ''Mouse'' ''center_y'' = Inr t
                \<and> py_float t = Inr y \<and> \<not> in_unit y)"
  shows "\<exists>m. load_config ev st = (Inl (SysExit 1), logging_log ERROR m st)
           \<and> main ev st = Some (Inl (SysExit 1), logging_log ERROR m st)
           \<and> process_status (Inl (SysExit 1)) = 1"
proof -
  have "\<not> (config_found ev \<and> (\<exists>s. read_settings (config_values ev) = Inr s))"
    using assms by (auto simp: read_settings_Inr setting_text_eq try_bind_Inr)
  then obtain m where "load_config ev st = (Inl (SysExit 1), logging_log ERROR m st)"
    using load_config_outcome [of ev st] by auto
  then show ?thesis using main_load_failed by auto
qed

theorem load_config_fatal_witness:
  "setting_text [''Joystick'' \<mapsto> [''device'' \<mapsto> ''0'', ''button'' \<mapsto> ''2''],
                 ''Mouse'' \<mapsto> [''center_x'' \<mapsto> ''1.5'', ''center_y'' \<mapsto> ''0.5'']]
      ''Mouse'' ''center_x'' = Inr ''1.5''
   \<and> py_float ''1.5'' = Inr (Finite (3 / 2)) \<and> \<not> in_unit (Finite (3 / 2))
   \<and> main \<lparr>config_found = True,
            config_values = [''Joystick'' \<mapsto> [''device'' \<mapsto> ''0'', ''button'' \<mapsto> ''2''],
                             ''Mouse'' \<mapsto> [''center_x'' \<mapsto> ''1.5'', ''center_y'' \<mapsto> ''0.5'']],
            pygame_fault = None, joysticks = [(''stick'', 3)],
            display = \<lparr>SM_CXSCREEN = 1920, SM_CYSCREEN = 1080\<rparr>,
            events = (\<lambda>i. [])\<rparr>
          \<lparr>cursor = (0, 0), trace = []\<rparr>
      = Some (Inl (SysExit 1),
              \<lparr>cursor = (0, 0),
               trace = [Logged ERROR (MsgExc ''Invalid value in configuration: ''
                          (Exc ValueError ''center_x and center_y must be between 0.0 and 1.0.''))]\<rparr>)"
proof -
  let ?cfg = "[''Joystick'' \<mapsto> [''device'' \<mapsto> ''0'', ''button'' \<mapsto> ''2''],
               ''Mouse'' \<mapsto> [''center_x'' \<mapsto> ''1.5'', ''center_y'' \<mapsto> ''0.5'']]"
  let ?ev = "\<lparr>config_found = True, config_values = ?cfg,
            pygame_fault = None, joysticks = [(''stick'', 3)],
            display = \<lparr>SM_CXSCREEN = 1920, SM_CYSCREEN = 1080\<rparr>,
            events = (\<lambda>i. [])\<rparr>"
  let ?st = "\<lparr>cursor = (0, 0), trace = []\<rparr>"
  have t: "setting_text ?cfg ''Mouse'' ''center_x'' = Inr ''1.5''"
    by (simp add: setting_text_eq config_getitem_def parse_eval)
  have f: "py_float ''1.5'' = Inr (Finite (3 / 2))" by (simp add: parse_eval float_eval)
  have u: "\<not> in_unit (Finite (3 / 2))" by (simp add: in_unit_def)
  have l: "load_config ?ev ?st =
      (Inl (SysExit 1), logging_log ERROR (MsgExc ''Invalid value in configuration: ''
                          (Exc ValueError ''center_x and center_y must be between 0.0 and 1.0.'')) ?st)"
    by (simp add: load_config_def read_settings_def setting_text_eq config_getitem_def
          parse_eval float_eval in_unit_def)
  have h: "\<exists>t x. setting_text (config_values ?ev) ''Mouse'' ''center_x'' = Inr t
                \<and> py_float t = Inr x \<and> \<not> in_unit x"
    using t f u by auto
  obtain m where m: "load_config ?ev ?st = (Inl (SysExit 1), logging_log ERROR m ?st)"
     "main ?ev ?st = Some (Inl (SysExit 1), logging_log ERROR m ?st)"
    using load_config_fatal [of ?ev ?st] h by blast
  have "logging_log ERROR m ?st = logging_log ERROR (MsgExc ''Invalid value in configuration: ''
                          (Exc ValueError ''center_x and center_y must be between 0.0 and 1.0.'')) ?st"
    using m(1) l by simp
  then show ?thesis using m(2) t f u by (simp add: logging_log_def emit_def)
qed

text \<open>
  C8. load\_config returns settings exactly when the file was read, the four keys are
  there, and for each value the text before its first \<open>;\<close> (all of it when there is
  none), stripped of surrounding whitespace, is what \<open>int\<close> (device, button) or
  \<open>float\<close> (center\_x, center\_y) parses into the setting, with both fractions in
  range: what follows a \<open>;\<close> never reaches the parser.
\<close>

theorem load_config_strips_comments:
  "load_config ev st = (Inr s, st') \<longleftrightarrow>
     config_found ev \<and> st' = st \<and>
     (\<exists>vd vb vx vy.
        config_getitem (config_values ev) ''Joystick'' ''device'' = Inr vd
      \<and> config_getitem (config_values ev) ''Joystick'' ''button'' = Inr vb
      \<and> config_getitem (config_values ev) ''Mouse'' ''center_x'' = Inr vx
      \<and> config_getitem (config_values ev) ''Mouse'' ''center_y'' = Inr vy
      \<and> py_int (strip (takeWhile (\<lambda>c. c \<noteq> CHR '';'') vd)) = Inr (device s)
      \<and> py_int (strip (takeWhile (\<lambda>c. c \<noteq> CHR '';'') vb)) = Inr (button s)
      \<and> py_float (strip (takeWhile (\<lambda>c. c \<noteq> CHR '';'') vx)) = Inr (center_x s)
      \<and> py_float (strip (takeWhile (\<lambda>c. c \<noteq> CHR '';'') vy)) = Inr (center_y s)
      \<and> in_unit (center_x s) \<and> in_unit (center_y s))"
  unfolding load_config_Inr read_settings_Inr setting_text_Inr by blast

theorem load_config_strips_comments_witness:
  "load_config
     \<lparr>config_found = True,
      config_values =
        [''Joystick'' \<mapsto> [''device'' \<mapsto> ''0 ; first stick'', ''button'' \<mapsto> ''2;trigger''],
         ''Mouse'' \<mapsto> [''center_x'' \<mapsto> ''0.5  ; half ; way'', ''center_y'' \<mapsto> ''0.25'']],
      pygame_fault = None, joysticks = [],
      display = \<lparr>SM_CXSCREEN = 1920, SM_CYSCREEN = 1080\<rparr>,
      events = (\<lambda>i. [])\<rparr>
     \<lparr>cursor = (0, 0), trace = []\<rparr>
   = (Inr \<lparr>device = 0, button = 2, center_x = Finite (1 / 2), center_y = Finite (1 / 4)\<rparr>,
      \<lparr>cursor = (0, 0), trace = []\<rparr>)"
proof -
  have i: "py_int (strip (takeWhile (\<lambda>c. c \<noteq> CHR '';'') ''0 ; first stick'')) = Inr 0"
      "py_int (strip (takeWhile (\<lambda>c. c \<noteq> CHR '';'') ''2;trigger'')) = Inr 2"
    by (simp_all add: parse_eval)
  have f: "py_float (strip (takeWhile (\<lambda>c. c \<noteq> CHR '';'') ''0.5  ; half ; way'')) = Inr (Finite (1 / 2))"
      "py_float (strip (takeWhile (\<lambda>c. c \<noteq> CHR '';'') ''0.25'')) = Inr (Finite (1 / 4))"
    by (simp_all add: parse_eval float_eval)
  have u: "in_unit (Finite (1 / 2))" "in_unit (Finite (1 / 4))" by (simp_all add: in_unit_def)
  show ?thesis
    unfolding load_config_strips_comments
    using i f u by (simp add: config_getitem_def)
qed

section \<open>The claims about validate\_config\<close>

lemma py_getitem_nonneg: "0 \<le> i \<Longrightarrow> i < int (length xs) \<Longrightarrow> py_getitem xs i = Inr (xs ! nat i)"
  by (simp add: py_getitem_def)

lemma py_getitem_neg:
  "- int (length xs) \<le> i \<Longrightarrow> i < 0 \<Longrightarrow> py_getitem xs i = Inr (xs ! nat (int (length xs) + i))"
  by (simp add: py_getitem_def)

text \<open>
  C2, as the specification states it: validation fails when the device index is out of
  the range of the enumerated devices. With one device enumerated (index 0) and
  device = -1, which is no index of an enumerated device, validate\_config returns
  without logging and without exiting.
\<close>

theorem validate_config_out_of_range_counterexample:
  "(- 1 :: int) \<notin> {0 ..< int (length [\<lparr>index = 0, name = ''stick'', buttons = 3\<rparr>])}
   \<and> validate_config \<lparr>device = - 1, button = 0, center_x = Finite (1 / 2), center_y = Finite (1 / 2)\<rparr>
        [\<lparr>index = 0, name = ''stick'', buttons = 3\<rparr>] \<lparr>cursor = (0, 0), trace = []\<rparr>
     = (Inr (), \<lparr>cursor = (0, 0), trace = []\<rparr>)"
  by (simp add: validate_config_def py_getitem_def)

text \<open>
  C2, amended: validate\_config logs an error and exits with status 1 if the device
  index is at least the number of enumerated devices, or if the button index is at
  least the number of buttons of the device that the index selects. So device = 2
  with devices 0 and 1 fails on the device index, and device = 0 with 3 buttons and
  button = 5 fails on the button index.
\<close>

theorem validate_config_upper_bounds:
  "(int (length ds) \<le> device s \<longrightarrow>
      validate_config s ds st =
        (Inl (SysExit 1),
         logging_log ERROR
           (Msg (''Invalid joystick index in config: '' @ str_int (device s) @ ''. Only ''
                 @ str_int (int (length ds)) @ '' device(s) detected.'')) st))
   \<and> (\<forall>info. device s < int (length ds) \<and> py_getitem ds (device s) = Inr info
               \<and> buttons info \<le> button s \<longrightarrow>
      validate_config s ds st =
        (Inl (SysExit 1),
         logging_log ERROR
           (Msg (''Invalid button index in config for device '' @ str_int (device s) @ '': ''
                 @ str_int (button s) @ ''. This joystick has '' @ str_int (buttons info)
                 @ '' buttons.'')) st))"
  by (simp add: validate_config_def)

theorem validate_config_upper_bounds_witness:
  "validate_config \<lparr>device = 2, button = 0, center_x = Finite (1 / 2), center_y = Finite (1 / 2)\<rparr>
      [\<lparr>index = 0, name = ''stick'', buttons = 3\<rparr>, \<lparr>index = 1, name = ''throttle'', buttons = 8\<rparr>]
      \<lparr>cursor = (0, 0), trace = []\<rparr>
     = (Inl (SysExit 1),
        \<lparr>cursor = (0, 0),
         trace = [Logged ERROR
                    (Msg ''Invalid joystick index in config: 2. Only 2 device(s) detected.'')]\<rparr>)
   \<and> validate_config \<lparr>device = 0, button = 5, center_x = Finite (1 / 2), center_y = Finite (1 / 2)\<rparr>
      [\<lparr>index = 0, name = ''stick'', buttons = 3\<rparr>] \<lparr>cursor = (0, 0), trace = []\<rparr>
     = (Inl (SysExit 1),
        \<lparr>cursor = (0, 0),
         trace = [Logged ERROR
                    (Msg ''Invalid button index in config for device 0: 5. This joystick has 3 buttons.'')]\<rparr>)"
proof -
  let ?s1 = "\<lparr>device = 2, button = 0, center_x = Finite (1 / 2), center_y = Finite (1 / 2)\<rparr>"
  let ?d1 = "[\<lparr>index = 0, name = ''stick'', buttons = 3\<rparr>, \<lparr>index = 1, name = ''throttle'', buttons = 8\<rparr>]"
  let ?s2 = "\<lparr>device = 0, button = 5, center_x = Finite (1 / 2), center_y = Finite (1 / 2)\<rparr>"
  let ?d2 = "[\<lparr>index = 0, name = ''stick'', buttons = 3\<rparr>]"
  let ?st = "\<lparr>cursor = (0, 0), trace = []\<rparr>"
  have n: "str_int 0 = ''0''" "str_int 2 = ''2''" "str_int 3 = ''3''" "str_int 5 = ''5''"
    by code_simp+
  have g: "py_getitem ?d2 0 = Inr \<lparr>index = 0, name = ''stick'', buttons = 3\<rparr>"
    by (simp add: py_getitem_def)
  have a: "validate_config ?s1 ?d1 ?st =
        (Inl (SysExit 1),
         logging_log ERROR
           (Msg (''Invalid joystick index in config: '' @ str_int (device ?s1) @ ''. Only ''
                 @ str_int (int (length ?d1)) @ '' device(s) detected.'')) ?st)"
    using validate_config_upper_bounds [of ?d1 ?s1 ?st] by simp
  have b: "validate_config ?s2 ?d2 ?st =
        (Inl (SysExit 1),
         logging_log ERROR
           (Msg (''Invalid button index in config for device '' @ str_int (device ?s2) @ '': ''
                 @ str_int (button ?s2) @ ''. This joystick has ''
                 @ str_int (buttons \<lparr>index = 0, name = ''stick'', buttons = 3\<rparr>)
                 @ '' buttons.'')) ?st)"
    using validate_config_upper_bounds [of ?d2 ?s2 ?st] g by simp
  show ?thesis unfolding a b by (simp add: n logging_log_def emit_def)
qed

text \<open>
  C9, as stated: with the upper-bound checks passed, a negative index is never
  rejected. For device = -1 and no device, and for device = -2 and one device, the
  check of the upper bound passes and indexing the list then raises IndexError,
  which nothing catches: the process ends with status 1.
\<close>

theorem validate_config_negative_counterexample:
  "validate_config \<lparr>device = - 1, button = - 1, center_x = Finite (1 / 2), center_y = Finite (1 / 2)\<rparr>
      [] \<lparr>cursor = (0, 0), trace = []\<rparr>
     = (Inl (Uncaught (Exc IndexError ''list index out of range'')), \<lparr>cursor = (0, 0), trace = []\<rparr>)
   \<and> validate_config \<lparr>device = - 2, button = 0, center_x = Finite (1 / 2), center_y = Finite (1 / 2)\<rparr>
      [\<lparr>index = 0, name = ''stick'', buttons = 3\<rparr>] \<lparr>cursor = (0, 0), trace = []\<rparr>
     = (Inl (Uncaught (Exc IndexError ''list index out of range'')), \<lparr>cursor = (0, 0), trace = []\<rparr>)
   \<and> exit_code (Uncaught (Exc IndexError ''list index out of range'')) = 1"
  by (simp add: validate_config_def py_getitem_def)

text \<open>
  C9, amended: validate\_config checks only upper bounds. A negative device index
  that is at least minus the number of devices is not rejected: it selects a device
  counting from the end, and validation succeeds when the button index is below that
  device's number of buttons. A negative button index is not rejected either, for a
  device index in range and a button count that is not negative.
\<close>

theorem validate_config_accepts_negative:
  "(- int (length ds) \<le> device s \<and> device s < 0
      \<and> button s < buttons (ds ! nat (int (length ds) + device s))
     \<longrightarrow> validate_config s ds st = (Inr (), st))
   \<and> (0 \<le> device s \<and> device s < int (length ds) \<and> button s < 0
      \<and> 0 \<le> buttons (ds ! nat (device s))
     \<longrightarrow> validate_config s ds st = (Inr (), st))"
  by (auto simp: validate_config_def py_getitem_def)

theorem validate_config_accepts_negative_witness:
  "validate_config \<lparr>device = - 1, button = 4, center_x = Finite (1 / 2), center_y = Finite (1 / 2)\<rparr>
      [\<lparr>index = 0, name = ''stick'', buttons = 3\<rparr>, \<lparr>index = 1, name = ''throttle'', buttons = 8\<rparr>]
      \<lparr>cursor = (0, 0), trace = []\<rparr>
     = (Inr (), \<lparr>cursor = (0, 0), trace = []\<rparr>)
   \<and> validate_config \<lparr>device = 0, button = - 7, center_x = Finite (1 / 2), center_y = Finite (1 / 2)\<rparr>
      [\<lparr>index = 0, name = ''stick'', buttons = 3\<rparr>] \<lparr>cursor = (0, 0), trace = []\<rparr>
     = (Inr (), \<lparr>cursor = (0, 0), trace = []\<rparr>)"
  using validate_config_accepts_negative
      [of "[\<lparr>index = 0, name = ''stick'', buttons = 3\<rparr>, \<lparr>index = 1, name = ''throttle'', buttons = 8\<rparr>]"
          "\<lparr>device = - 1, button = 4, center_x = Finite (1 / 2), center_y = Finite (1 / 2)\<rparr>"
          "\<lparr>cursor = (0, 0), trace = []\<rparr>"]
    validate_config_accepts_negative
      [of "[\<lparr>index = 0, name = ''stick'', buttons = 3\<rparr>]"
          "\<lparr>device = 0, button = - 7, center_x = Finite (1 / 2), center_y = Finite (1 / 2)\<rparr>"
          "\<lparr>cursor = (0, 0), trace = []\<rparr>"]
  by simp

section \<open>The event loop\<close>

lemma print_quit:
  "py_print ''Quit event received.'' st = logging_log INFO (Msg ''Quit event received.'') st"
  using py_print_framed [of "CHR ''Q''" "CHR ''.''" "''uit event received''" st]
  by (simp add: isspace_def)

lemma on_quit_QUIT:
  "on_quit QUIT st =
     st\<lparr>trace := trace st @ [Logged INFO (Msg ''Quit event received.''),
                              Logged INFO (Msg ''Quit event received.'')]\<rparr>"
  unfolding on_quit_def Let_def pygame_event.case print_quit
  by (simp add: logging_log_def emit_def)

lemma handle_event_QUIT:
  "handle_event s scr QUIT st =
     (Inr (), st\<lparr>trace := trace st @ [Logged INFO (Msg ''Quit event received.''),
                                      Logged INFO (Msg ''Quit event received.'')]\<rparr>)"
  by (simp add: handle_event_def on_button_up_def on_quit_QUIT)

lemma handle_event_other_button:
  "b \<noteq> button s \<Longrightarrow> handle_event s scr (JOYBUTTONUP j b) st = (Inr (), st)"
  by (simp add: handle_event_def on_button_up_def on_quit_def)

lemma handle_event_returns:
  assumes "in_unit (center_x s)" "in_unit (center_y s)"
  shows "\<exists>st1. handle_event s scr event st = (Inr (), st1)"
proof (cases event)
  case (JOYBUTTONUP j b)
  show ?thesis
  proof (cases "b = button s")
    case True
    obtain px py where "center_mouse scr (center_x s) (center_y s)
        (py_print (''Button '' @ str_int b @ '' released!'')
           (logging_log INFO (Msg (''Button '' @ str_int b @ '' released!'')) st)) =
         (Inr (), (py_print (''Button '' @ str_int b @ '' released!'')
           (logging_log INFO (Msg (''Button '' @ str_int b @ '' released!'')) st))
            \<lparr>cursor := (trunc px, trunc py),
                     trace := trace (py_print (''Button '' @ str_int b @ '' released!'')
           (logging_log INFO (Msg (''Button '' @ str_int b @ '' released!'')) st)) @
                       [CursorSet 0 0,
                        Logged INFO (Msg ''Mouse moved to initial position: (0, 0)''),
                        Slept 50,
                        CursorSet (trunc px) (trunc py),
                        Logged INFO (Msg (''Mouse moved to second position: ('' @ str_int (trunc px)
                                           @ '', '' @ str_int (trunc py) @ '')''))]\<rparr>)"
      using center_mouse_in_unit [OF assms] by blast
    then show ?thesis using True JOYBUTTONUP
      by (simp add: handle_event_def on_button_up_def Let_def)
  next
    case False
    then show ?thesis using JOYBUTTONUP by (simp add: handle_event_other_button)
  qed
next
  case QUIT
  then show ?thesis by (simp add: handle_event_QUIT)
next
  case (OTHER n)
  then show ?thesis by (simp add: handle_event_def on_button_up_def on_quit_def)
qed

lemma process_events_returns:
  assumes "in_unit (center_x s)" "in_unit (center_y s)"
  shows "\<exists>st1. process_events s scr evs st = (Inr (), st1)"
proof (induction evs arbitrary: st)
  case Nil
  then show ?case by simp
next
  case (Cons e evs)
  obtain st1 where "handle_event s scr e st = (Inr (), st1)"
    using handle_event_returns [OF assms] by blast
  then show ?case using Cons [of st1] by simp
qed

lemma event_loop_runs_on:
  assumes "in_unit (center_x s)" "in_unit (center_y s)"
  shows "event_loop s ev i st = None"
proof (cases "event_loop s ev i st")
  case None
  then show ?thesis .
next
  case (Some r)
  have "\<not> (in_unit (center_x s) \<and> in_unit (center_y s))"
  proof (rule event_loop.raw_induct
      [where P = "\<lambda>s ev i st r. \<not> (in_unit (center_x s) \<and> in_unit (center_y s))", OF _ Some])
    fix loop s ev i st and r :: "py_exception \<times> state"
    assume IH: "\<And>s ev i st r. loop s ev i st = Some r
                  \<Longrightarrow> \<not> (in_unit (center_x s) \<and> in_unit (center_y s))"
      and step: "(case process_events s (display ev) (events ev i) (emit EventsPumped st) of
                    (Inl e, st1) \<Rightarrow> Some (e, st1)
                  | (Inr u, st1) \<Rightarrow> loop s ev (Suc i) (time_sleep 100 st1)) = Some r"
    show "\<not> (in_unit (center_x s) \<and> in_unit (center_y s))"
    proof
      assume u: "in_unit (center_x s) \<and> in_unit (center_y s)"
      then obtain st1 where
        "process_events s (display ev) (events ev i) (emit EventsPumped st) = (Inr (), st1)"
        using process_events_returns by blast
      then have "loop s ev (Suc i) (time_sleep 100 st1) = Some r"
        using step by simp
      then show False using IH u by blast
    qed
  qed
  then show ?thesis using assms by simp
qed

text \<open>
  What the passes of the loop leave in the trace when the settings are in range: one
  pump per pass and two records per quit event received; and the loop with no bound
  on its passes ends exactly when one of its passes raises.
\<close>

lemma print_button:
  "py_print (''Button '' @ str_int b @ '' released!'') st
     = logging_log INFO (Msg (''Button '' @ str_int b @ '' released!'')) st"
  using py_print_framed [of "CHR ''B''" "CHR ''!''" "''utton '' @ str_int b @ '' released''" st]
  by (simp add: isspace_def)

lemma handle_event_counts:
  assumes "in_unit (center_x s)" "in_unit (center_y s)"
  shows "\<exists>st1. handle_event s scr event st = (Inr (), st1)
     \<and> count_list (trace st1) EventsPumped = count_list (trace st) EventsPumped
     \<and> count_list (trace st1) (Logged INFO (Msg ''Quit event received.''))
         = count_list (trace st) (Logged INFO (Msg ''Quit event received.''))
           + (if event = QUIT then 2 else 0)"
proof (cases event)
  case (JOYBUTTONUP j b)
  show ?thesis
  proof (cases "b = button s")
    case True
    let ?st2 = "logging_log INFO (Msg (''Button '' @ str_int b @ '' released!''))
                  (logging_log INFO (Msg (''Button '' @ str_int b @ '' released!'')) st)"
    obtain px py where c: "center_mouse scr (center_x s) (center_y s) ?st2 =
         (Inr (), ?st2\<lparr>cursor := (trunc px, trunc py),
                     trace := trace ?st2 @
                       [CursorSet 0 0,
                        Logged INFO (Msg ''Mouse moved to initial position: (0, 0)''),
                        Slept 50,
                        CursorSet (trunc px) (trunc py),
                        Logged INFO (Msg (''Mouse moved to second position: ('' @ str_int (trunc px)
                                           @ '', '' @ str_int (trunc py) @ '')''))]\<rparr>)"
      using center_mouse_in_unit [OF assms] by blast
    have h: "handle_event s scr event st =
         (Inr (), ?st2\<lparr>cursor := (trunc px, trunc py),
                     trace := trace ?st2 @
                       [CursorSet 0 0,
                        Logged INFO (Msg ''Mouse moved to initial position: (0, 0)''),
                        Slept 50,
                        CursorSet (trunc px) (trunc py),
                        Logged INFO (Msg (''Mouse moved to second position: ('' @ str_int (trunc px)
                                           @ '', '' @ str_int (trunc py) @ '')''))]\<rparr>)"
      unfolding handle_event_def on_button_up_def Let_def JOYBUTTONUP pygame_event.case
        print_button
      using True c by (simp add: on_quit_def)
    show ?thesis unfolding h using JOYBUTTONUP
      by (simp add: logging_log_def emit_def)
  next
    case False
    then show ?thesis using JOYBUTTONUP by (simp add: handle_event_other_button)
  qed
next
  case QUIT
  then show ?thesis by (simp add: handle_event_QUIT)
next
  case (OTHER k)
  then show ?thesis by (simp add: handle_event_def on_button_up_def on_quit_def)
qed

lemma process_events_counts:
  assumes "in_unit (center_x s)" "in_unit (center_y s)"
  shows "\<exists>st1. process_events s scr evs st = (Inr (), st1)
     \<and> count_list (trace st1) EventsPumped = count_list (trace st) EventsPumped
     \<and> count_list (trace st1) (Logged INFO (Msg ''Quit event received.''))
         = count_list (trace st) (Logged INFO (Msg ''Quit event received.''))
           + 2 * count_list evs QUIT"
proof (induction evs arbitrary: st)
  case Nil
  then show ?case by simp
next
  case (Cons e evs)
  obtain st1 where a: "handle_event s scr e st = (Inr (), st1)"
     "count_list (trace st1) EventsPumped = count_list (trace st) EventsPumped"
     "count_list (trace st1) (Logged INFO (Msg ''Quit event received.''))
         = count_list (trace st) (Logged INFO (Msg ''Quit event received.''))
           + (if e = QUIT then 2 else 0)"
    using handle_event_counts [OF assms] by blast
  obtain st2 where b: "process_events s scr evs st1 = (Inr (), st2)"
     "count_list (trace st2) EventsPumped = count_list (trace st1) EventsPumped"
     "count_list (trace st2) (Logged INFO (Msg ''Quit event received.''))
         = count_list (trace st1) (Logged INFO (Msg ''Quit event received.''))
           + 2 * count_list evs QUIT"
    using Cons [of st1] by blast
  show ?case using a b by simp
qed

lemma event_loop_passes_counts:
  assumes "in_unit (center_x s)" "in_unit (center_y s)"
  shows "\<exists>st1. event_loop_passes n s ev i st = (Inr (), st1)
     \<and> count_list (trace st1) EventsPumped = count_list (trace st) EventsPumped + n
     \<and> count_list (trace st1) (Logged INFO (Msg ''Quit event received.''))
         = count_list (trace st) (Logged INFO (Msg ''Quit event received.''))
           + 2 * (\<Sum>j = i ..< i + n. count_list (events ev j) QUIT)"
proof (induction n arbitrary: i st)
  case 0
  then show ?case by simp
next
  case (Suc n)
  obtain st1 where a: "process_events s (display ev) (events ev i) (emit EventsPumped st) = (Inr (), st1)"
     "count_list (trace st1) EventsPumped = count_list (trace (emit EventsPumped st)) EventsPumped"
     "count_list (trace st1) (Logged INFO (Msg ''Quit event received.''))
         = count_list (trace (emit EventsPumped st)) (Logged INFO (Msg ''Quit event received.''))
           + 2 * count_list (events ev i) QUIT"
    using process_events_counts [OF assms] by blast
  obtain st2 where b: "event_loop_passes n s ev (Suc i) (time_sleep 100 st1) = (Inr (), st2)"
     "count_list (trace st2) EventsPumped = count_list (trace (time_sleep 100 st1)) EventsPumped + n"
     "count_list (trace st2) (Logged INFO (Msg ''Quit event received.''))
         = count_list (trace (time_sleep 100 st1)) (Logged INFO (Msg ''Quit event received.''))
           + 2 * (\<Sum>j = Suc i ..< Suc i + n. count_list (events ev j) QUIT)"
    using Suc [of "Suc i" "time_sleep 100 st1"] by blast
  have s: "(\<Sum>j = i ..< i + Suc n. count_list (events ev j) QUIT)
           = count_list (events ev i) QUIT + (\<Sum>j = Suc i ..< Suc i + n. count_list (events ev j) QUIT)"
    by (simp add: sum.atLeast_Suc_lessThan)
  show ?case unfolding s using a b by (simp add: emit_def time_sleep_def)
qed

lemma event_loop_Some_iff:
  "event_loop s ev i st = Some (e, st') \<longleftrightarrow> (\<exists>n. event_loop_passes n s ev i st = (Inl e, st'))"
proof
  assume a: "event_loop s ev i st = Some (e, st')"
  have "\<exists>n. event_loop_passes n s ev i st = (Inl (fst (e, st')), snd (e, st'))"
  proof (rule event_loop.raw_induct
      [where P = "\<lambda>s ev i st r. \<exists>n. event_loop_passes n s ev i st = (Inl (fst r), snd r)",
        OF _ a])
    fix loop s ev i st and r :: "py_exception \<times> state"
    assume IH: "\<And>s ev i st r. loop s ev i st = Some r
                  \<Longrightarrow> \<exists>n. event_loop_passes n s ev i st = (Inl (fst r), snd r)"
      and step: "(case process_events s (display ev) (events ev i) (emit EventsPumped st) of
                    (Inl e, st1) \<Rightarrow> Some (e, st1)
                  | (Inr u, st1) \<Rightarrow> loop s ev (Suc i) (time_sleep 100 st1)) = Some r"
    show "\<exists>n. event_loop_passes n s ev i st = (Inl (fst r), snd r)"
    proof (cases "process_events s (display ev) (events ev i) (emit EventsPumped st)")
      case (Pair res st1)
      show ?thesis
      proof (cases res)
        case (Inl x)
        then have "event_loop_passes (Suc 0) s ev i st = (Inl (fst r), snd r)"
          using step Pair by auto
        then show ?thesis by blast
      next
        case (Inr u)
        then have "loop s ev (Suc i) (time_sleep 100 st1) = Some r"
          using step Pair by simp
        then obtain n where
          "event_loop_passes n s ev (Suc i) (time_sleep 100 st1) = (Inl (fst r), snd r)"
          using IH by blast
        then have "event_loop_passes (Suc n) s ev i st = (Inl (fst r), snd r)"
          using Pair Inr by simp
        then show ?thesis by blast
      qed
    qed
  qed
  then show "\<exists>n. event_loop_passes n s ev i st = (Inl e, st')" by simp
next
  assume "\<exists>n. event_loop_passes n s ev i st = (Inl e, st')"
  then obtain n where "event_loop_passes n s ev i st = (Inl e, st')" by blast
  then show "event_loop s ev i st = Some (e, st')"
  proof (induction n arbitrary: i st)
    case 0
    then show ?case by simp
  next
    case (Suc n)
    show ?case
    proof (cases "process_events s (display ev) (events ev i) (emit EventsPumped st)")
      case (Pair r st1)
      show ?thesis
      proof (cases r)
        case (Inl x)
        then show ?thesis using Suc.prems Pair
          by (subst event_loop.simps) simp
      next
        case (Inr u)
        then have "event_loop_passes n s ev (Suc i) (time_sleep 100 st1) = (Inl e, st')"
          using Suc.prems Pair by simp
        then have "event_loop s ev (Suc i) (time_sleep 100 st1) = Some (e, st')"
          by (rule Suc.IH)
        then show ?thesis using Pair Inr
          by (subst event_loop.simps) simp
      qed
    qed
  qed
qed

lemma process_events_append:
  "process_events s scr (xs @ ys) st =
     (case process_events s scr xs st of
        (Inl e, st1) \<Rightarrow> (Inl e, st1)
      | (Inr u, st1) \<Rightarrow> process_events s scr ys st1)"
  by (induction xs arbitrary: st) (auto split: prod.splits sum.splits)

lemma process_events_other_buttons:
  "\<forall>e \<in> set evs. \<exists>j b. e = JOYBUTTONUP j b \<and> b \<noteq> button s
     \<Longrightarrow> process_events s scr evs st = (Inr (), st)"
  by (induction evs) (auto simp: handle_event_other_button)

section \<open>The claims about the event loop and main\<close>

text \<open>
  C6. A button-release event whose button is not the configured one changes nothing:
  handling it returns with the state as it was, so the cursor is not moved and nothing
  is logged. A poll that brings only such events adds nothing to what every pass of
  the loop does, the pump of the queue and the 100 ms sleep.
\<close>

theorem other_button_release_ignored:
  "(b \<noteq> button s \<longrightarrow> handle_event s scr (JOYBUTTONUP j b) st = (Inr (), st))
   \<and> ((\<forall>e \<in> set evs. \<exists>j b. e = JOYBUTTONUP j b \<and> b \<noteq> button s)
        \<longrightarrow> process_events s scr evs st = (Inr (), st))
   \<and> ((\<forall>e \<in> set (events ev i). \<exists>j b. e = JOYBUTTONUP j b \<and> b \<noteq> button s)
        \<longrightarrow> event_loop s ev i st =
            event_loop s ev (Suc i) (st\<lparr>trace := trace st @ [EventsPumped, Slept 100]\<rparr>))"
proof (intro conjI impI)
  assume "b \<noteq> button s"
  then show "handle_event s scr (JOYBUTTONUP j b) st = (Inr (), st)"
    by (rule handle_event_other_button)
next
  assume "\<forall>e \<in> set evs. \<exists>j b. e = JOYBUTTONUP j b \<and> b \<noteq> button s"
  then show "process_events s scr evs st = (Inr (), st)"
    by (rule process_events_other_buttons)
next
  assume "\<forall>e \<in> set (events ev i). \<exists>j b. e = JOYBUTTONUP j b \<and> b \<noteq> button s"
  then have "process_events s (display ev) (events ev i) (emit EventsPumped st)
               = (Inr (), emit EventsPumped st)"
    by (rule process_events_other_buttons)
  then show "event_loop s ev i st =
            event_loop s ev (Suc i) (st\<lparr>trace := trace st @ [EventsPumped, Slept 100]\<rparr>)"
    by (subst event_loop.simps) (simp add: emit_def time_sleep_def)
qed

theorem other_button_release_ignored_witness:
  "(3 :: int) \<noteq> button \<lparr>device = 0, button = 2, center_x = Finite (1 / 2), center_y = Finite (1 / 2)\<rparr>
   \<and> handle_event \<lparr>device = 0, button = 2, center_x = Finite (1 / 2), center_y = Finite (1 / 2)\<rparr>
        \<lparr>SM_CXSCREEN = 1920, SM_CYSCREEN = 1080\<rparr> (JOYBUTTONUP 0 3)
        \<lparr>cursor = (11, 12), trace = []\<rparr> = (Inr (), \<lparr>cursor = (11, 12), trace = []\<rparr>)
   \<and> process_events \<lparr>device = 0, button = 2, center_x = Finite (1 / 2), center_y = Finite (1 / 2)\<rparr>
        \<lparr>SM_CXSCREEN = 1920, SM_CYSCREEN = 1080\<rparr> [JOYBUTTONUP 0 3, JOYBUTTONUP 0 0]
        \<lparr>cursor = (11, 12), trace = []\<rparr> = (Inr (), \<lparr>cursor = (11, 12), trace = []\<rparr>)
   \<and> event_loop \<lparr>device = 0, button = 2, center_x = Finite (1 / 2), center_y = Finite (1 / 2)\<rparr>
        \<lparr>config_found = True, config_values = Map.empty, pygame_fault = None,
         joysticks = [(''stick'', 4)], display = \<lparr>SM_CXSCREEN = 1920, SM_CYSCREEN = 1080\<rparr>,
         events = (\<lambda>i. [JOYBUTTONUP 0 3])\<rparr> 0 \<lparr>cursor = (11, 12), trace = []\<rparr>
     = event_loop \<lparr>device = 0, button = 2, center_x = Finite (1 / 2), center_y = Finite (1 / 2)\<rparr>
        \<lparr>config_found = True, config_values = Map.empty, pygame_fault = None,
         joysticks = [(''stick'', 4)], display = \<lparr>SM_CXSCREEN = 1920, SM_CYSCREEN = 1080\<rparr>,
         events = (\<lambda>i. [JOYBUTTONUP 0 3])\<rparr> (Suc 0)
        \<lparr>cursor = (11, 12), trace = [EventsPumped, Slept 100]\<rparr>"
proof -
  let ?ev = "\<lparr>config_found = True, config_values = Map.empty, pygame_fault = None,
         joysticks = [(''stick'', 4)], display = \<lparr>SM_CXSCREEN = 1920, SM_CYSCREEN = 1080\<rparr>,
         events = (\<lambda>i. [JOYBUTTONUP 0 3])\<rparr>"
  let ?s = "\<lparr>device = 0, button = 2, center_x = Finite (1 / 2), center_y = Finite (1 / 2)\<rparr>"
  let ?scr = "\<lparr>SM_CXSCREEN = 1920, SM_CYSCREEN = 1080\<rparr>"
  let ?st = "\<lparr>cursor = (11, 12), trace = []\<rparr>"
  have h: "\<forall>e \<in> set [JOYBUTTONUP 0 3, JOYBUTTONUP 0 0]. \<exists>j b. e = JOYBUTTONUP j b \<and> b \<noteq> button ?s"
    by simp
  have n: "(3 :: int) \<noteq> button ?s" by simp
  have a: "handle_event ?s ?scr (JOYBUTTONUP 0 3) ?st = (Inr (), ?st)"
    using other_button_release_ignored [where b = 3 and s = ?s and scr = ?scr and j = 0 and st = ?st]
      n by blast
  have b: "process_events ?s ?scr [JOYBUTTONUP 0 3, JOYBUTTONUP 0 0] ?st = (Inr (), ?st)"
    using other_button_release_ignored
      [where s = ?s and scr = ?scr and st = ?st and evs = "[JOYBUTTONUP 0 3, JOYBUTTONUP 0 0]"]
      h by blast
  have c: "event_loop ?s ?ev 0 ?st = event_loop ?s ?ev (Suc 0) \<lparr>cursor = (11, 12), trace = [EventsPumped, Slept 100]\<rparr>"
    using other_button_release_ignored [where s = ?s and ev = ?ev and i = 0 and st = ?st] by simp
  from n a b c show ?thesis by blast
qed

text \<open>
  C7. A quit event is logged, by \<open>logging.info\<close> and again through the redirected
  \<open>print\<close>, and nothing else: handling it returns normally and the events after it in
  the same poll are handled. The loop does this for every quit event it receives and
  goes on polling: a pass whose poll is a quit event pumps, logs the two records,
  sleeps 100 ms and is followed by the next pass; with settings that passed
  load\_config, whatever the events are, the loop is still running after any number
  \<open>n\<close> of passes, having pumped \<open>n\<close> times and logged two records for each quit event
  of these \<open>n\<close> polls. The loop ends only with a pass that raises, which never happens
  with such settings: it never exits.
\<close>

theorem quit_event_logged_loop_goes_on:
  "handle_event s scr QUIT st =
     (Inr (), st\<lparr>trace := trace st @ [Logged INFO (Msg ''Quit event received.''),
                                      Logged INFO (Msg ''Quit event received.'')]\<rparr>)
   \<and> process_events s scr (QUIT # rest) st =
       process_events s scr rest
         (st\<lparr>trace := trace st @ [Logged INFO (Msg ''Quit event received.''),
                                  Logged INFO (Msg ''Quit event received.'')]\<rparr>)
   \<and> (events ev i = [QUIT] \<longrightarrow>
        event_loop s ev i st =
          event_loop s ev (Suc i)
            (st\<lparr>trace := trace st @ [EventsPumped,
                                     Logged INFO (Msg ''Quit event received.''),
                                     Logged INFO (Msg ''Quit event received.''),
                                     Slept 100]\<rparr>))
   \<and> (events ev i = [QUIT] \<longrightarrow>
        event_loop_passes (Suc n) s ev i st =
          event_loop_passes n s ev (Suc i)
            (st\<lparr>trace := trace st @ [EventsPumped,
                                     Logged INFO (Msg ''Quit event received.''),
                                     Logged INFO (Msg ''Quit event received.''),
                                     Slept 100]\<rparr>))
   \<and> (events ev i = pre @ QUIT # rest
        \<and> process_events s (display ev) pre (emit EventsPumped st) = (Inr (), st1) \<longrightarrow>
        event_loop_passes (Suc n) s ev i st =
          (case process_events s (display ev) rest
                  (st1\<lparr>trace := trace st1 @ [Logged INFO (Msg ''Quit event received.''),
                                             Logged INFO (Msg ''Quit event received.'')]\<rparr>) of
             (Inl e, st2) \<Rightarrow> (Inl e, st2)
           | (Inr u, st2) \<Rightarrow> event_loop_passes n s ev (Suc i) (time_sleep 100 st2)))
   \<and> (in_unit (center_x s) \<and> in_unit (center_y s) \<longrightarrow>
        (\<exists>st1. event_loop_passes n s ev i st = (Inr (), st1)
           \<and> count_list (trace st1) EventsPumped = count_list (trace st) EventsPumped + n
           \<and> count_list (trace st1) (Logged INFO (Msg ''Quit event received.''))
               = count_list (trace st) (Logged INFO (Msg ''Quit event received.''))
                 + 2 * (\<Sum>j = i ..< i + n. count_list (events ev j) QUIT)))
   \<and> (event_loop s ev i st = Some (e, st')
        \<longleftrightarrow> (\<exists>k. event_loop_passes k s ev i st = (Inl e, st')))
   \<and> (in_unit (center_x s) \<and> in_unit (center_y s) \<longrightarrow> event_loop s ev i st = None)"
proof (intro conjI impI)
  show "handle_event s scr QUIT st =
     (Inr (), st\<lparr>trace := trace st @ [Logged INFO (Msg ''Quit event received.''),
                                      Logged INFO (Msg ''Quit event received.'')]\<rparr>)"
    by (rule handle_event_QUIT)
next
  show "process_events s scr (QUIT # rest) st =
       process_events s scr rest
         (st\<lparr>trace := trace st @ [Logged INFO (Msg ''Quit event received.''),
                                  Logged INFO (Msg ''Quit event received.'')]\<rparr>)"
    by (simp add: handle_event_QUIT)
next
  assume "events ev i = [QUIT]"
  then show "event_loop s ev i st =
          event_loop s ev (Suc i)
            (st\<lparr>trace := trace st @ [EventsPumped,
                                     Logged INFO (Msg ''Quit event received.''),
                                     Logged INFO (Msg ''Quit event received.''),
                                     Slept 100]\<rparr>)"
    by (subst event_loop.simps) (simp add: handle_event_QUIT emit_def time_sleep_def)
next
  assume "events ev i = [QUIT]"
  then show "event_loop_passes (Suc n) s ev i st =
          event_loop_passes n s ev (Suc i)
            (st\<lparr>trace := trace st @ [EventsPumped,
                                     Logged INFO (Msg ''Quit event received.''),
                                     Logged INFO (Msg ''Quit event received.''),
                                     Slept 100]\<rparr>)"
    by (simp add: handle_event_QUIT emit_def time_sleep_def)
next
  assume "events ev i = pre @ QUIT # rest
        \<and> process_events s (display ev) pre (emit EventsPumped st) = (Inr (), st1)"
  then show "event_loop_passes (Suc n) s ev i st =
          (case process_events s (display ev) rest
                  (st1\<lparr>trace := trace st1 @ [Logged INFO (Msg ''Quit event received.''),
                                             Logged INFO (Msg ''Quit event received.'')]\<rparr>) of
             (Inl e, st2) \<Rightarrow> (Inl e, st2)
           | (Inr u, st2) \<Rightarrow> event_loop_passes n s ev (Suc i) (time_sleep 100 st2))"
    by (simp add: process_events_append handle_event_QUIT)
next
  assume "in_unit (center_x s) \<and> in_unit (center_y s)"
  then show "\<exists>st1. event_loop_passes n s ev i st = (Inr (), st1)
           \<and> count_list (trace st1) EventsPumped = count_list (trace st) EventsPumped + n
           \<and> count_list (trace st1) (Logged INFO (Msg ''Quit event received.''))
               = count_list (trace st) (Logged INFO (Msg ''Quit event received.''))
                 + 2 * (\<Sum>j = i ..< i + n. count_list (events ev j) QUIT)"
    using event_loop_passes_counts by blast
next
  show "event_loop s ev i st = Some (e, st')
        \<longleftrightarrow> (\<exists>k. event_loop_passes k s ev i st = (Inl e, st'))"
    by (rule event_loop_Some_iff)
next
  assume "in_unit (center_x s) \<and> in_unit (center_y s)"
  then show "event_loop s ev i st = None"
    by (simp add: event_loop_runs_on)
qed

theorem quit_event_logged_loop_goes_on_witness:
  "events \<lparr>config_found = True,
      config_values =
        [''Joystick'' \<mapsto> [''device'' \<mapsto> ''0'', ''button'' \<mapsto> ''2''],
         ''Mouse'' \<mapsto> [''center_x'' \<mapsto> ''0.5'', ''center_y'' \<mapsto> ''0.5'']],
      pygame_fault = None, joysticks = [(''stick'', 4)],
      display = \<lparr>SM_CXSCREEN = 1920, SM_CYSCREEN = 1080\<rparr>,
      events = (\<lambda>i. [QUIT])\<rparr> 0 = [QUIT]
   \<and> in_unit (Finite (1 / 2))
   \<and> event_loop_passes (Suc (Suc 0))
        \<lparr>device = 0, button = 2, center_x = Finite (1 / 2), center_y = Finite (1 / 2)\<rparr>
        \<lparr>config_found = True,
         config_values =
           [''Joystick'' \<mapsto> [''device'' \<mapsto> ''0'', ''button'' \<mapsto> ''2''],
            ''Mouse'' \<mapsto> [''center_x'' \<mapsto> ''0.5'', ''center_y'' \<mapsto> ''0.5'']],
         pygame_fault = None, joysticks = [(''stick'', 4)],
         display = \<lparr>SM_CXSCREEN = 1920, SM_CYSCREEN = 1080\<rparr>,
         events = (\<lambda>i. [QUIT])\<rparr> 0 \<lparr>cursor = (0, 0), trace = []\<rparr>
      = (Inr (),
         \<lparr>cursor = (0, 0),
          trace = [EventsPumped,
                   Logged INFO (Msg ''Quit event received.''),
                   Logged INFO (Msg ''Quit event received.''),
                   Slept 100,
                   EventsPumped,
                   Logged INFO (Msg ''Quit event received.''),
                   Logged INFO (Msg ''Quit event received.''),
                   Slept 100]\<rparr>)
   \<and> main \<lparr>config_found = True,
      config_values =
        [''Joystick'' \<mapsto> [''device'' \<mapsto> ''0'', ''button'' \<mapsto> ''2''],
         ''Mouse'' \<mapsto> [''center_x'' \<mapsto> ''0.5'', ''center_y'' \<mapsto> ''0.5'']],
      pygame_fault = None, joysticks = [(''stick'', 4)],
      display = \<lparr>SM_CXSCREEN = 1920, SM_CYSCREEN = 1080\<rparr>,
      events = (\<lambda>i. [QUIT])\<rparr> \<lparr>cursor = (0, 0), trace = []\<rparr> = None"
proof -
  let ?cfg = "[''Joystick'' \<mapsto> [''device'' \<mapsto> ''0'', ''button'' \<mapsto> ''2''],
         ''Mouse'' \<mapsto> [''center_x'' \<mapsto> ''0.5'', ''center_y'' \<mapsto> ''0.5'']]"
  let ?ev = "\<lparr>config_found = True, config_values = ?cfg,
      pygame_fault = None, joysticks = [(''stick'', 4)],
      display = \<lparr>SM_CXSCREEN = 1920, SM_CYSCREEN = 1080\<rparr>,
      events = (\<lambda>i. [QUIT])\<rparr>"
  let ?st = "\<lparr>cursor = (0, 0), trace = []\<rparr>"
  let ?s = "\<lparr>device = 0, button = 2, center_x = Finite (1 / 2), center_y = Finite (1 / 2)\<rparr>"
  have u: "in_unit (Finite (1 / 2))" by (simp add: in_unit_def)
  have q: "events ?ev j = [QUIT]" for j by simp
  have l: "load_config ?ev ?st = (Inr ?s, ?st)"
    by (simp add: load_config_def read_settings_def setting_text_eq config_getitem_def
          parse_eval float_eval in_unit_def)
  have step: "event_loop_passes (Suc n) ?s ?ev j st =
          event_loop_passes n ?s ?ev (Suc j)
            (st\<lparr>trace := trace st @ [EventsPumped,
                                     Logged INFO (Msg ''Quit event received.''),
                                     Logged INFO (Msg ''Quit event received.''),
                                     Slept 100]\<rparr>)" for n j st
    using quit_event_logged_loop_goes_on
        [where s = ?s and ev = ?ev and i = j and st = st and n = n
           and scr = "display ?ev" and rest = "[]"] q [of j]
    by blast
  have p: "event_loop_passes (Suc (Suc 0)) ?s ?ev 0 ?st
      = (Inr (),
         \<lparr>cursor = (0, 0),
          trace = [EventsPumped,
                   Logged INFO (Msg ''Quit event received.''),
                   Logged INFO (Msg ''Quit event received.''),
                   Slept 100,
                   EventsPumped,
                   Logged INFO (Msg ''Quit event received.''),
                   Logged INFO (Msg ''Quit event received.''),
                   Slept 100]\<rparr>)"
    unfolding step by simp
  have n: "event_loop ?s ?ev 0 st = None" for st
  proof -
    have "in_unit (center_x ?s) \<and> in_unit (center_y ?s)" using u by simp
    then show ?thesis
      using quit_event_logged_loop_goes_on
        [where s = ?s and ev = ?ev and i = 0 and st = st and scr = "display ?ev" and rest = "[]"]
      by blast
  qed
  have m: "main ?ev ?st = None"
    unfolding main_def l
    by (simp add: log_available_devices_def Let_def validate_config_def py_getitem_def
          main_try_def open_joystick_def n)
  from q [of 0] u p m show ?thesis by blast
qed

text \<open>
  C5. When the configuration has loaded and pygame reports no joystick,
  log\_available\_devices logs "No joysticks detected." and returns False, which
  \<open>not devices_info\<close> takes as no devices; main then logs that it exits and ends the
  process with status 1.
\<close>

theorem no_joysticks_exit:
  assumes "load_config ev st = (Inr s, st1)" and "pygame_fault ev = None" and "joysticks ev = []"
  shows "log_available_devices ev st1 =
           (Inr PyFalse,
            st1\<lparr>trace := trace st1 @ [PygameInit, JoystickModuleInit,
                                      Logged INFO (Msg ''No joysticks detected.'')]\<rparr>)
       \<and> falsy PyFalse
       \<and> main ev st =
           Some (Inl (SysExit 1),
                 st1\<lparr>trace := trace st1 @ [PygameInit, JoystickModuleInit,
                                           Logged INFO (Msg ''No joysticks detected.''),
                                           Logged INFO (Msg ''Exiting: No joysticks available.'')]\<rparr>)
       \<and> process_status (Inl (SysExit 1)) = 1"
proof -
  have d: "log_available_devices ev st1 =
           (Inr PyFalse,
            st1\<lparr>trace := trace st1 @ [PygameInit, JoystickModuleInit,
                                      Logged INFO (Msg ''No joysticks detected.'')]\<rparr>)"
    using assms(2,3) by (simp add: log_available_devices_def logging_log_def emit_def)
  have "main ev st =
           Some (Inl (SysExit 1),
                 st1\<lparr>trace := trace st1 @ [PygameInit, JoystickModuleInit,
                                           Logged INFO (Msg ''No joysticks detected.''),
                                           Logged INFO (Msg ''Exiting: No joysticks available.'')]\<rparr>)"
    unfolding main_def assms(1) by (simp add: d logging_log_def emit_def)
  then show ?thesis using d by simp
qed

theorem no_joysticks_exit_witness:
  "main \<lparr>config_found = True,
      config_values =
        [''Joystick'' \<mapsto> [''device'' \<mapsto> ''0'', ''button'' \<mapsto> ''2''],
         ''Mouse'' \<mapsto> [''center_x'' \<mapsto> ''0.5'', ''center_y'' \<mapsto> ''0.5'']],
      pygame_fault = None, joysticks = [],
      display = \<lparr>SM_CXSCREEN = 1920, SM_CYSCREEN = 1080\<rparr>,
      events = (\<lambda>i. [])\<rparr> \<lparr>cursor = (0, 0), trace = []\<rparr>
   = Some (Inl (SysExit 1),
           \<lparr>cursor = (0, 0),
            trace = [PygameInit, JoystickModuleInit,
                     Logged INFO (Msg ''No joysticks detected.''),
                     Logged INFO (Msg ''Exiting: No joysticks available.'')]\<rparr>)"
proof -
  let ?cfg = "[''Joystick'' \<mapsto> [''device'' \<mapsto> ''0'', ''button'' \<mapsto> ''2''],
         ''Mouse'' \<mapsto> [''center_x'' \<mapsto> ''0.5'', ''center_y'' \<mapsto> ''0.5'']]"
  let ?ev = "\<lparr>config_found = True, config_values = ?cfg,
      pygame_fault = None, joysticks = [],
      display = \<lparr>SM_CXSCREEN = 1920, SM_CYSCREEN = 1080\<rparr>,
      events = (\<lambda>i. [])\<rparr>"
  let ?st = "\<lparr>cursor = (0, 0), trace = []\<rparr>"
  let ?s = "\<lparr>device = 0, button = 2, center_x = Finite (1 / 2), center_y = Finite (1 / 2)\<rparr>"
  have l: "load_config ?ev ?st = (Inr ?s, ?st)"
    by (simp add: load_config_def read_settings_def setting_text_eq config_getitem_def
          parse_eval float_eval in_unit_def)
  show ?thesis using no_joysticks_exit [OF l] by simp
qed

end
